theory Spec2Isabelle
  imports Main
begin

section \<open>JavaScript values\<close>

text \<open>
  The extension pipeline of SuperCommand handles values of unknown shape: whatever a
  compiled bundle leaves in \<open>module.exports\<close>, whatever an entry function returns or
  throws, and the hand-written stubs that stand in for the Node.js built-ins. They are
  modelled by one datatype.

  \<^item> \<open>JFun body props\<close> is a function object: its body and its own properties.
  \<^item> \<open>JPromise s\<close> is a native promise and how it settles.
  \<^item> \<open>JElement n\<close> is a React element (what \<open>React.isValidElement\<close> accepts).
  \<^item> \<open>JPlatform n\<close> is an object of the platform (\<open>globalThis\<close>, \<open>performance\<close>, a
    \<open>Date\<close>, a typed array), opaque here.
  \<^item> An \<open>Error\<close> with message \<open>m\<close> is the object \<open>JObj [(''message'', JStr m)]\<close>.

  Function bodies are the forms the source uses for its stubs (section "Calling a
  function value" says what each does), and \<open>User oc\<close> for a function of an extension,
  abstracted to what a call of it does. Numbers are integers (the only number whose
  truthiness differs from the others is zero; NaN is not modelled).
\<close>

datatype jsval =
    JUndefined
  | JNull
  | JBool bool
  | JNum int
  | JStr string
  | JArr "jsval list"
  | JObj "(string \<times> jsval) list"
  | JFun fnbody "(string \<times> jsval) list"
  | JPromise settle
  | JElement string
  | JPlatform string
and fnbody =
    Const jsval
  | CallLastCb
  | AssertTruthy
  | FirstArg
  | ReturnThis
  | PathParse
  | Opaque string
  | OnFirstArg string
  | NewUint8Array
  | Builtin string
  | Class "(string \<times> jsval) list"
  | User outcome
and settle =
    Fulfilled jsval
  | Rejected jsval
  | Pending
and outcome =
    Returns jsval
  | Throws jsval

text \<open>JavaScript truthiness: \<open>!v\<close> is \<open>\<not> truthy v\<close>.\<close>

fun truthy :: "jsval \<Rightarrow> bool" where
  "truthy JUndefined = False"
| "truthy JNull = False"
| "truthy (JBool b) = b"
| "truthy (JNum n) = (n \<noteq> 0)"
| "truthy (JStr s) = (s \<noteq> [])"
| "truthy _ = True"

text \<open>\<open>typeof v === 'function'\<close>.\<close>

fun is_function :: "jsval \<Rightarrow> bool" where
  "is_function (JFun b ps) = True"
| "is_function _ = False"

text \<open>
  A property read \<open>v.k\<close>. Reading a property of \<open>null\<close> or \<open>undefined\<close> throws a
  TypeError (\<open>None\<close>). Objects and functions answer with their own properties; a promise
  has its \<open>then\<close> method. The members that the built-in prototypes add (\<open>toString\<close>,
  \<open>length\<close> and the like) are not modelled: none of the names the source reads
  (\<open>default\<close>, \<open>then\<close>, \<open>message\<close>) is one of them.
\<close>

fun get_prop :: "jsval \<Rightarrow> string \<Rightarrow> jsval option" where
  "get_prop JUndefined k = None"
| "get_prop JNull k = None"
| "get_prop (JObj ps) k = Some (case map_of ps k of None \<Rightarrow> JUndefined | Some v \<Rightarrow> v)"
| "get_prop (JFun b ps) k = Some (case map_of ps k of None \<Rightarrow> JUndefined | Some v \<Rightarrow> v)"
| "get_prop (JPromise s) k =
     Some (if k = ''then'' then JFun (Builtin ''Promise.prototype.then'') [] else JUndefined)"
| "get_prop _ k = Some JUndefined"

text \<open>The optional chain \<open>v?.k\<close>: \<open>undefined\<close> when \<open>v\<close> is \<open>null\<close> or \<open>undefined\<close>.\<close>

definition get_prop_opt :: "jsval \<Rightarrow> string \<Rightarrow> jsval" where
  "get_prop_opt v k = (case get_prop v k of None \<Rightarrow> JUndefined | Some x \<Rightarrow> x)"

text \<open>\<open>a || b\<close>.\<close>

definition js_or :: "jsval \<Rightarrow> jsval \<Rightarrow> jsval" where
  "js_or a b = (if truthy a then a else b)"

section \<open>The navigation stack of a command session (ExtensionView)\<close>

text \<open>
  \<^verbatim>\<open>
  const push = useCallback((element) => { setNavStack((prev) => [...prev, element]); }, []);
  const pop = useCallback(() => {
    setNavStack((prev) => {
      if (prev.length > 0) return prev.slice(0, -1);
      onClose();
      return prev;
    });
  }, [onClose]);
  \<close>
  The state of one \<open>ExtensionView\<close> is its three \<open>useState\<close> cells (\<open>error\<close> starts as
  \<open>null\<close>) and the state of its error boundary (\<open>boundaryError\<close>, also \<open>null\<close> at first).
  \<open>onClose\<close> is a callback of the host; the model counts its calls in \<open>onCloseCalls\<close>.
\<close>

record session =
  error :: jsval
  navStack :: "jsval list"
  detectedNoView :: bool
  boundaryError :: jsval
  onCloseCalls :: nat

definition initial_session :: session where
  "initial_session =
     \<lparr>error = JNull, navStack = [], detectedNoView = False, boundaryError = JNull, onCloseCalls = 0\<rparr>"

definition push :: "jsval \<Rightarrow> session \<Rightarrow> session" where
  "push element s = s\<lparr>navStack := navStack s @ [element]\<rparr>"

definition pop :: "session \<Rightarrow> session" where
  "pop s =
     (if length (navStack s) > 0 then s\<lparr>navStack := butlast (navStack s)\<rparr>
      else s\<lparr>onCloseCalls := Suc (onCloseCalls s)\<rparr>)"

datatype nav_op = Push jsval | Pop

fun nav_step :: "session \<Rightarrow> nav_op \<Rightarrow> session" where
  "nav_step s (Push element) = push element s"
| "nav_step s Pop = pop s"

definition nav_run :: "nav_op list \<Rightarrow> session \<Rightarrow> session" where
  "nav_run ops s = foldl nav_step s ops"

section \<open>Calling a function value\<close>


definition TypeError :: "string \<Rightarrow> jsval" where
  "TypeError msg = JObj [(''name'', JStr ''TypeError''), (''message'', JStr msg)]"





text \<open>
  Every function body that can be reached from a value: through the properties of
  objects and functions, the elements of arrays, the methods of classes, and the values
  that functions return and promises settle with.
\<close>

primrec fnbodies :: "jsval \<Rightarrow> fnbody list"
  and fnbodies_body :: "fnbody \<Rightarrow> fnbody list"
  and fnbodies_settle :: "settle \<Rightarrow> fnbody list"
  and fnbodies_outcome :: "outcome \<Rightarrow> fnbody list" where
  "fnbodies JUndefined = []"
| "fnbodies JNull = []"
| "fnbodies (JBool b) = []"
| "fnbodies (JNum n) = []"
| "fnbodies (JStr s) = []"
| "fnbodies (JArr xs) = concat (map fnbodies xs)"
| "fnbodies (JObj ps) = concat (map snd (map (map_prod id fnbodies) ps))"
| "fnbodies (JFun b ps) = b # fnbodies_body b @ concat (map snd (map (map_prod id fnbodies) ps))"
| "fnbodies (JPromise s) = fnbodies_settle s"
| "fnbodies (JElement n) = []"
| "fnbodies (JPlatform n) = []"
| "fnbodies_body (Const v) = fnbodies v"
| "fnbodies_body CallLastCb = []"
| "fnbodies_body AssertTruthy = []"
| "fnbodies_body FirstArg = []"
| "fnbodies_body ReturnThis = []"
| "fnbodies_body PathParse = []"
| "fnbodies_body (Opaque n) = []"
| "fnbodies_body (OnFirstArg n) = []"
| "fnbodies_body NewUint8Array = []"
| "fnbodies_body (Builtin n) = []"
| "fnbodies_body (Class ms) = concat (map snd (map (map_prod id fnbodies) ms))"
| "fnbodies_body (User oc) = fnbodies_outcome oc"
| "fnbodies_settle (Fulfilled v) = fnbodies v"
| "fnbodies_settle (Rejected v) = fnbodies v"
| "fnbodies_settle Pending = []"
| "fnbodies_outcome (Returns v) = fnbodies v"
| "fnbodies_outcome (Throws v) = fnbodies v"




section \<open>The Node.js built-in stubs of the renderer\<close>

definition noop :: jsval where
  "noop = JFun (Const JUndefined) []"

definition noopAsync :: jsval where
  "noopAsync = JFun (Const (JPromise (Fulfilled JUndefined))) []"

definition noopCb :: jsval where
  "noopCb = JFun CallLastCb []"

text \<open>An arrow function \<open>() => v\<close>.\<close>

definition arrow :: "jsval \<Rightarrow> jsval" where
  "arrow v = JFun (Const v) []"

text \<open>A function whose body is one built-in operation, or a function of the platform.\<close>

definition builtin :: "string \<Rightarrow> jsval" where
  "builtin n = JFun (Builtin n) []"

text \<open>A function whose body starts with a method call on its first argument.\<close>

definition on_first_arg :: "string \<Rightarrow> jsval" where
  "on_first_arg n = JFun (OnFirstArg n) []"

text \<open>A function made of platform operations that cannot fail.\<close>

definition opaque :: "string \<Rightarrow> jsval" where
  "opaque n = JFun (Opaque n) []"

definition fsPromisesStub :: jsval where
  "fsPromisesStub = JObj
    [(''readFile'', noopAsync),
     (''writeFile'', noopAsync),
     (''mkdir'', noopAsync),
     (''readdir'', arrow (JPromise (Fulfilled (JArr [])))),
     (''stat'', arrow (JPromise (Fulfilled (JObj
        [(''isFile'', arrow (JBool False)), (''isDirectory'', arrow (JBool False))])))),
     (''access'', noopAsync),
     (''unlink'', noopAsync),
     (''rm'', noopAsync)]"

definition fsStub :: jsval where
  "fsStub = JObj
    [(''existsSync'', arrow (JBool False)),
     (''readFileSync'', arrow (JStr [])),
     (''writeFileSync'', noop),
     (''mkdirSync'', noop),
     (''readdirSync'', arrow (JArr [])),
     (''statSync'', arrow (JObj
        [(''isFile'', arrow (JBool False)), (''isDirectory'', arrow (JBool False)),
         (''mtime'', JPlatform ''new Date()'')])),
     (''unlinkSync'', noop),
     (''rmdirSync'', noop),
     (''rmSync'', noop),
     (''readFile'', noopCb),
     (''writeFile'', noopCb),
     (''mkdir'', noopCb),
     (''access'', noopCb),
     (''promises'', fsPromisesStub)]"

definition pathStub :: jsval where
  "pathStub = JObj
    [(''join'', builtin ''parts.filter(Boolean).join''),
     (''resolve'', builtin ''parts.filter(Boolean).join''),
     (''dirname'', on_first_arg ''p.split.slice.join''),
     (''basename'', on_first_arg ''p.split.pop''),
     (''extname'', on_first_arg ''p.match''),
     (''sep'', JStr ''/''),
     (''parse'', JFun PathParse []),
     (''isAbsolute'', on_first_arg ''p.startsWith''),
     (''normalize'', JFun FirstArg []),
     (''relative'', arrow (JStr []))]"

definition osStub :: jsval where
  "osStub = JObj
    [(''homedir'', arrow (JStr ''/tmp'')),
     (''tmpdir'', arrow (JStr ''/tmp'')),
     (''platform'', arrow (JStr ''darwin'')),
     (''type'', arrow (JStr ''Darwin'')),
     (''hostname'', arrow (JStr ''localhost'')),
     (''cpus'', arrow (JArr [])),
     (''totalmem'', arrow (JNum 0)),
     (''freemem'', arrow (JNum 0)),
     (''EOL'', JStr [CHR 0x0A])]"

definition cryptoStub :: jsval where
  "cryptoStub = JObj
    [(''randomUUID'', builtin ''crypto.randomUUID?.() || Math.random().toString(36).slice(2)''),
     (''createHash'', arrow (JObj
        [(''update'', arrow (JObj [(''digest'', opaque ''Math.random().toString(36).slice(2)'')]))])),
     (''randomBytes'', JFun NewUint8Array [])]"

definition EventEmitter :: jsval where
  "EventEmitter = JFun (Class
    [(''on'', JFun ReturnThis []),
     (''off'', JFun ReturnThis []),
     (''once'', JFun ReturnThis []),
     (''emit'', arrow (JBool False)),
     (''addListener'', JFun ReturnThis []),
     (''removeListener'', JFun ReturnThis []),
     (''removeAllListeners'', JFun ReturnThis [])]) []"

definition eventsStub :: jsval where
  "eventsStub = JObj [(''EventEmitter'', EventEmitter), (''default'', EventEmitter)]"

definition childProcessStub :: jsval where
  "childProcessStub = JObj
    [(''exec'', noopCb),
     (''execSync'', builtin ''Buffer.from''),
     (''spawn'', arrow (JObj
        [(''on'', noop), (''stdout'', JObj [(''on'', noop)]),
         (''stderr'', JObj [(''on'', noop)]), (''kill'', noop)]))]"

definition timersPromisesStub :: jsval where
  "timersPromisesStub = JObj
    [(''setTimeout'', builtin ''new Promise((r) => setTimeout(r, ms))''),
     (''setInterval'', noop),
     (''setImmediate'', arrow (JPromise (Fulfilled JUndefined)))]"

definition bufferStub_Buffer :: jsval where
  "bufferStub_Buffer = JObj
    [(''from'', opaque ''new TextEncoder().encode(s) or new Uint8Array()''),
     (''alloc'', JFun NewUint8Array []),
     (''isBuffer'', arrow (JBool False)),
     (''concat'', arrow (JPlatform ''new Uint8Array()''))]"

definition bufferStub :: jsval where
  "bufferStub = JObj [(''Buffer'', bufferStub_Buffer)]"

definition utilStub :: jsval where
  "utilStub = JObj
    [(''promisify'', JFun FirstArg []),
     (''format'', builtin ''args.join''),
     (''inspect'', builtin ''JSON.stringify''),
     (''TextDecoder'', builtin ''TextDecoder''),
     (''TextEncoder'', builtin ''TextEncoder'')]"

definition processStub :: jsval where
  "processStub = JObj
    [(''env'', JObj []),
     (''cwd'', arrow (JStr ''/'')),
     (''platform'', JStr ''darwin''),
     (''version'', JStr ''v18.0.0''),
     (''argv'', JArr []),
     (''exit'', noop),
     (''on'', noop),
     (''nextTick'', opaque ''Promise.resolve().then(fn)'')]"

text \<open>The object literal \<open>nodeBuiltinStubs\<close>, in the order of the source.\<close>

definition nodeBuiltinStubs_literal :: "(string \<times> jsval) list" where
  "nodeBuiltinStubs_literal =
    [(''fs'', fsStub),
     (''fs/promises'', fsPromisesStub),
     (''path'', pathStub),
     (''os'', osStub),
     (''crypto'', cryptoStub),
     (''events'', eventsStub),
     (''child_process'', childProcessStub),
     (''timers'', JObj
        [(''setTimeout'', builtin ''globalThis.setTimeout''),
         (''setInterval'', builtin ''globalThis.setInterval''),
         (''clearTimeout'', builtin ''globalThis.clearTimeout''),
         (''clearInterval'', builtin ''globalThis.clearInterval'')]),
     (''timers/promises'', timersPromisesStub),
     (''buffer'', bufferStub),
     (''util'', utilStub),
     (''stream'', JObj
        [(''Readable'', JFun (Class []) []), (''Writable'', JFun (Class []) []),
         (''Transform'', JFun (Class []) []), (''PassThrough'', JFun (Class []) [])]),
     (''stream/promises'', JObj []),
     (''url'', JObj
        [(''URL'', builtin ''globalThis.URL''),
         (''URLSearchParams'', builtin ''globalThis.URLSearchParams''),
         (''parse'', builtin ''new URL(u)'')]),
     (''querystring'', JObj
        [(''parse'', builtin ''Object.fromEntries(new URLSearchParams(s))''),
         (''stringify'', builtin ''new URLSearchParams(o).toString()'')]),
     (''http'', JObj [(''request'', noop), (''get'', noop)]),
     (''https'', JObj [(''request'', noop), (''get'', noop)]),
     (''assert'', JFun AssertTruthy []),
     (''net'', JObj []),
     (''tls'', JObj []),
     (''dns'', JObj []),
     (''dgram'', JObj []),
     (''cluster'', JObj []),
     (''tty'', JObj [(''isatty'', arrow (JBool False))]),
     (''v8'', JObj []),
     (''vm'', JObj []),
     (''worker_threads'', JObj []),
     (''zlib'', JObj []),
     (''module'', JObj [(''createRequire'', arrow (arrow (JObj [])))]),
     (''readline'', JObj []),
     (''perf_hooks'', JObj [(''performance'', JPlatform ''globalThis.performance'')]),
     (''string_decoder'', JObj
        [(''StringDecoder'', JFun (Class
           [(''write'', builtin ''String(b)''), (''end'', arrow (JStr []))]) [])]),
     (''process'', processStub)]"

text \<open>
  \<^verbatim>\<open>
  for (const [key, val] of Object.entries({ ...nodeBuiltinStubs })) {
    nodeBuiltinStubs[`node:${key}`] = val;
  }
  \<close>
  The loop runs over a copy of the literal, so each of its keys gets one prefixed twin.
\<close>

definition nodeBuiltinStubs :: "(string \<times> jsval) list" where
  "nodeBuiltinStubs =
     nodeBuiltinStubs_literal @ map (\<lambda>(key, val). (''node:'' @ key, val)) nodeBuiltinStubs_literal"

text \<open>
  The names that \<open>buildExtensionCommand\<close> (main process) keeps external in every
  bundle, with the comment "We provide runtime stubs via fakeRequire in ExtensionView".
\<close>

definition nodeBuiltins :: "string list" where
  "nodeBuiltins =
    [''assert'', ''buffer'', ''child_process'', ''cluster'', ''crypto'',
     ''dgram'', ''dns'', ''events'', ''fs'', ''fs/promises'', ''http'',
     ''http2'', ''https'', ''module'', ''net'', ''os'', ''path'',
     ''perf_hooks'', ''process'', ''querystring'', ''readline'',
     ''stream'', ''stream/promises'', ''string_decoder'', ''timers'',
     ''timers/promises'', ''tls'', ''tty'', ''url'', ''util'', ''v8'',
     ''vm'', ''worker_threads'', ''zlib'',
     ''node:assert'', ''node:buffer'', ''node:child_process'',
     ''node:crypto'', ''node:events'', ''node:fs'', ''node:fs/promises'',
     ''node:http'', ''node:https'', ''node:module'', ''node:net'',
     ''node:os'', ''node:path'', ''node:process'', ''node:querystring'',
     ''node:stream'', ''node:timers'', ''node:timers/promises'',
     ''node:url'', ''node:util'', ''node:vm'', ''node:worker_threads'',
     ''node:zlib'']"



section \<open>The sandbox loader (loadExtensionExport)\<close>

datatype console_entry = ConsoleWarn string | ConsoleError string

text \<open>
  What \<open>fakeRequire\<close> can return: the \<open>React\<close> import of the renderer, its
  \<open>react/jsx-runtime\<close> module, the namespace of \<open>./raycast-api\<close> (imported twice, as
  \<open>RaycastAPI\<close> and as \<open>RaycastUtils\<close>: one object), a value of the stub table, a member
  that the stub table inherits from \<open>Object.prototype\<close>, or a fresh empty object.
\<close>

datatype module_value =
    ReactModule
  | JsxRuntimeModule
  | RaycastApiNamespace
  | Stub jsval
  | InheritedMember string
  | EmptyObject

text \<open>
  \<open>name in nodeBuiltinStubs\<close> is true for the own keys of the table and for the members
  every object literal inherits from \<open>Object.prototype\<close>.
\<close>

definition objectPrototypeKeys :: "string list" where
  "objectPrototypeKeys =
    [''constructor'', ''__defineGetter__'', ''__defineSetter__'', ''hasOwnProperty'',
     ''__lookupGetter__'', ''__lookupSetter__'', ''isPrototypeOf'', ''propertyIsEnumerable'',
     ''toString'', ''valueOf'', ''__proto__'', ''toLocaleString'']"

definition in_operator :: "string \<Rightarrow> (string \<times> jsval) list \<Rightarrow> bool" where
  "in_operator name obj = (name \<in> set (map fst obj) \<or> name \<in> set objectPrototypeKeys)"

definition unknown_module_warning :: "string \<Rightarrow> console_entry" where
  "unknown_module_warning name =
     ConsoleWarn (''Extension tried to require unknown module: '' @ [CHR 0x22] @ name @ [CHR 0x22])"

text \<open>
  \<^verbatim>\<open>
  const fakeRequire = (name: string): any => {
    switch (name) {
      case 'react': return React;
      case 'react/jsx-runtime': return require('react/jsx-runtime');
      case '@raycast/api': return RaycastAPI;
      case '@raycast/utils': return RaycastUtils;
      default:
        if (name in nodeBuiltinStubs) { return nodeBuiltinStubs[name]; }
        console.warn(`Extension tried to require unknown module: "${name}"`);
        return {};
    }
  };
  \<close>
  The result is the module and what was written to the console.
\<close>

definition fakeRequire :: "string \<Rightarrow> module_value \<times> console_entry list" where
  "fakeRequire name =
     (if name = ''react'' then (ReactModule, [])
      else if name = ''react/jsx-runtime'' then (JsxRuntimeModule, [])
      else if name = ''@raycast/api'' then (RaycastApiNamespace, [])
      else if name = ''@raycast/utils'' then (RaycastApiNamespace, [])
      else if in_operator name nodeBuiltinStubs then
        (case map_of nodeBuiltinStubs name of
           Some stub \<Rightarrow> (Stub stub, [])
         | None \<Rightarrow> (InheritedMember name, []))
      else (EmptyObject, [unknown_module_warning name]))"

text \<open>
  The global object, as the properties the loader looks at. \<open>globalThis\<close> is the object
  itself: the loader reads and writes its properties and never assigns \<open>globalThis\<close>.
  \<^verbatim>\<open>
  function ensureGlobals() {
    if (!(globalThis as any).process) { (globalThis as any).process = nodeBuiltinStubs.process; }
    if (!(globalThis as any).Buffer) { (globalThis as any).Buffer = bufferStub.Buffer; }
    if (!(globalThis as any).global) { (globalThis as any).global = globalThis; }
  }
  \<close>
\<close>

type_synonym globals = "string \<rightharpoonup> jsval"

definition read_global :: "globals \<Rightarrow> string \<Rightarrow> jsval" where
  "read_global g k = (case g k of None \<Rightarrow> JUndefined | Some v \<Rightarrow> v)"

definition globalThis :: jsval where
  "globalThis = JPlatform ''globalThis''"

definition ensure_global :: "string \<Rightarrow> jsval \<Rightarrow> globals \<Rightarrow> globals" where
  "ensure_global k v g = (if \<not> truthy (read_global g k) then g(k \<mapsto> v) else g)"

definition ensureGlobals :: "globals \<Rightarrow> globals" where
  "ensureGlobals g =
     ensure_global ''global'' globalThis
       (ensure_global ''Buffer'' bufferStub_Buffer
         (ensure_global ''process'' processStub g))"

text \<open>
  Running a bundle, \<open>new Function('exports', 'require', 'module', '__filename',
  '__dirname', code)\<close> and its call, is the work of the JavaScript engine and a parameter
  of the model: given the globals, the \<open>require\<close> function and the text, the run either
  completes, and \<open>Completed v\<close> carries the value of \<open>fakeModule.exports\<close> at that
  moment, or it raises (a SyntaxError of \<open>new Function\<close>, or whatever the bundle throws).
\<close>

datatype exec_result = Completed jsval | Raised jsval

type_synonym engine =
  "globals \<Rightarrow> (string \<Rightarrow> module_value \<times> console_entry list) \<Rightarrow> string \<Rightarrow> exec_result"

text \<open>
  \<^verbatim>\<open>
  function loadExtensionExport(code: string): Function | null {
    ensureGlobals();
    try {
      ...
      fn(moduleExports, fakeRequire, fakeModule, '', '');
      const exported = fakeModule.exports.default || fakeModule.exports;
      if (typeof exported === 'function') { return exported; }
      console.error('Extension did not export a function');
      return null;
    } catch (e) {
      console.error('Failed to load extension:', e);
      return null;
    }
  }
  \<close>
  The model returns the globals after the call, the function or \<open>None\<close> for \<open>null\<close>,
  and the loader's own console lines. Reading \<open>.default\<close> of \<open>null\<close> or \<open>undefined\<close>
  (a bundle may assign them to \<open>module.exports\<close>) is a TypeError inside the \<open>try\<close>.
\<close>

definition load_failed :: console_entry where
  "load_failed = ConsoleError ''Failed to load extension:''"

definition not_a_function :: console_entry where
  "not_a_function = ConsoleError ''Extension did not export a function''"

definition loadExtensionExport ::
  "engine \<Rightarrow> globals \<Rightarrow> string \<Rightarrow> globals \<times> jsval option \<times> console_entry list" where
  "loadExtensionExport run g code =
     (let g' = ensureGlobals g in
      case run g' fakeRequire code of
        Raised e \<Rightarrow> (g', None, [load_failed])
      | Completed exports \<Rightarrow>
          (case get_prop exports ''default'' of
             None \<Rightarrow> (g', None, [load_failed])
           | Some d \<Rightarrow>
               (let exported = js_or d exports in
                if is_function exported then (g', Some exported, [])
                else (g', None, [not_a_function]))))"

text \<open>The function the loader hands to the lifecycle controller.\<close>

definition loaded :: "globals \<times> jsval option \<times> console_entry list \<Rightarrow> jsval option" where
  "loaded r = fst (snd r)"

section \<open>The command lifecycle (ExtensionView, SafeViewRenderer, NoViewRunner)\<close>

text \<open>
  The lifecycle controller works on the function that \<open>loadExtensionExport\<close> returned.
  An entry function is code of an extension and need not do the same at every call: the
  model takes it as the outcomes of its calls in the order they are made, \<open>Component n\<close>
  being what call number \<open>n\<close> does (\<open>Returns v\<close> or \<open>Throws e\<close>), counted from 0 for one
  open command. \<open>ExtExport = None\<close> is the \<open>null\<close> of a failed load.

  \<^verbatim>\<open>
  const element = useMemo(() => {
    try {
      const result = (Component as any)();
      if (result && typeof result.then === 'function') { return null; }
      return result;
    } catch { return undefined; }
  }, [Component]);
  useEffect(() => { if (element === null) { onNoView(); } }, [element, onNoView]);
  if (element === null || fallback) return null;
  if (React.isValidElement(element)) { return element; }
  return <Component />;
  \<close>
  The memo runs the probe once for an entry function, so the probe is call number 0. The
  state \<open>fallback\<close> of the source starts \<open>false\<close> and is never set.
\<close>

type_synonym entry = "nat \<Rightarrow> outcome"

definition is_thenable :: "jsval \<Rightarrow> bool" where
  "is_thenable result = (truthy result \<and> is_function (get_prop_opt result ''then''))"

fun isValidElement :: "jsval \<Rightarrow> bool" where
  "isValidElement (JElement n) = True"
| "isValidElement v = False"

text \<open>The memo, from what the one probing call does.\<close>

definition probe_element :: "outcome \<Rightarrow> jsval" where
  "probe_element probe =
     (case probe of
        Returns result \<Rightarrow> if is_thenable result then JNull else result
      | Throws e \<Rightarrow> JUndefined)"

datatype safe_view = RenderNothing | RenderElement jsval | RenderComponent

text \<open>What \<open>SafeViewRenderer\<close> renders, and whether its effect calls \<open>onNoView\<close>.\<close>

definition SafeViewRenderer :: "entry \<Rightarrow> safe_view \<times> bool" where
  "SafeViewRenderer Component =
     (let element = probe_element (Component 0); fallback = False
      in (if element = JNull \<or> fallback then RenderNothing
          else if isValidElement element then RenderElement element
          else RenderComponent,
          element = JNull))"

text \<open>
  \<^verbatim>\<open>
  const isNoView = mode === 'no-view' || mode === 'menu-bar' || detectedNoView;
  ...
  if (error) { return <error panel> }
  if (!ExtExport) { return <"Failed to load extension"> }
  if (isNoView) { return <NoViewRunner fn={ExtExport} title={title} onClose={onClose} /> }
  const currentView = navStack.length > 0 ? navStack[navStack.length - 1] : null;
  return (
    <NavigationContext.Provider value={navValue}>
      <ExtensionErrorBoundary onError={(e) => setError(e.message)}>
        {currentView || (
          <SafeViewRenderer Component={ExtExport} onNoView={() => setDetectedNoView(true)} />)}
      </ExtensionErrorBoundary>
    </NavigationContext.Provider>);
  \<close>
  \<open>ExtensionErrorBoundary\<close> keeps the error it caught (\<open>getDerivedStateFromError\<close>) and
  renders its own panel while it has one; \<open>boundaryError\<close> of the session is that state.
\<close>

datatype view =
    ErrorPanel jsval
  | LoadFailedPanel
  | NoViewRunnerPanel
  | BoundaryPanel jsval
  | CurrentView jsval
  | SafeView safe_view

definition isNoView :: "string \<Rightarrow> session \<Rightarrow> bool" where
  "isNoView mode s = (mode = ''no-view'' \<or> mode = ''menu-bar'' \<or> detectedNoView s)"

definition currentView :: "session \<Rightarrow> jsval" where
  "currentView s = (if length (navStack s) > 0 then last (navStack s) else JNull)"

definition ExtensionView :: "string \<Rightarrow> entry option \<Rightarrow> session \<Rightarrow> view" where
  "ExtensionView mode ExtExport s =
     (if truthy (error s) then ErrorPanel (error s)
      else case ExtExport of
        None \<Rightarrow> LoadFailedPanel
      | Some Component \<Rightarrow>
          if isNoView mode s then NoViewRunnerPanel
          else if truthy (boundaryError s) then BoundaryPanel (boundaryError s)
          else if truthy (currentView s) then CurrentView (currentView s)
          else SafeView (fst (SafeViewRenderer Component)))"

text \<open>
  What follows a render in which \<open>SafeViewRenderer\<close> is shown.
  \<^item> When the probe gave \<open>null\<close>, the effect calls \<open>onNoView\<close>, which sets
    \<open>detectedNoView\<close>.
  \<^item> When \<open>SafeViewRenderer\<close> returned \<open><Component />\<close>, React instantiates the component:
    the next call of the entry function, number 1. If that call throws \<open>e\<close>, the boundary
    keeps \<open>e\<close> and \<open>componentDidCatch\<close> calls \<open>onError(e)\<close>, that is
    \<open>setError(e.message)\<close>; for \<open>e\<close> \<open>null\<close> or \<open>undefined\<close> the read of \<open>e.message\<close> is a
    TypeError thrown in \<open>componentDidCatch\<close>, above which the extension view has no
    boundary (\<open>Inl\<close>: the error reaches the host).
  A React element is opaque here: what rendering it does is not followed.
\<close>

definition ExtensionView_effects :: "string \<Rightarrow> entry option \<Rightarrow> session \<Rightarrow> jsval + session" where
  "ExtensionView_effects mode ExtExport s =
     (case ExtExport of
        None \<Rightarrow> Inr s
      | Some Component \<Rightarrow>
          (case ExtensionView mode ExtExport s of
             SafeView RenderNothing \<Rightarrow>
               Inr (if snd (SafeViewRenderer Component) then s\<lparr>detectedNoView := True\<rparr> else s)
           | SafeView (RenderElement element) \<Rightarrow> Inr s
           | SafeView RenderComponent \<Rightarrow>
               (case Component 1 of
                  Returns rendered \<Rightarrow> Inr s
                | Throws e \<Rightarrow>
                    (case get_prop e ''message'' of
                       None \<Rightarrow> Inl (TypeError ''Cannot read properties of undefined or null'')
                     | Some msg \<Rightarrow> Inr (s\<lparr>error := msg, boundaryError := e\<rparr>)))
           | _ \<Rightarrow> Inr s))"

text \<open>
  The number of calls of the entry function that the first render of a view command and
  what follows it make: the probe, and one more when the component is instantiated.
\<close>

definition entry_calls :: "string \<Rightarrow> entry option \<Rightarrow> session \<Rightarrow> nat" where
  "entry_calls mode ExtExport s =
     (case ExtensionView mode ExtExport s of
        SafeView RenderComponent \<Rightarrow> 2
      | SafeView v \<Rightarrow> 1
      | _ \<Rightarrow> 0)"

subsection \<open>NoViewRunner\<close>

text \<open>
  \<^verbatim>\<open>
  const [status, setStatus] = useState<'running' | 'done' | 'error'>('running');
  const [errorMsg, setErrorMsg] = useState('');
  useEffect(() => {
    let cancelled = false;
    (async () => {
      try {
        await fn();
        if (!cancelled) { setStatus('done'); setTimeout(() => onClose(), 600); }
      } catch (e: any) {
        if (!cancelled) { setStatus('error'); setErrorMsg(e?.message || 'Command failed'); }
      }
    })();
    return () => { cancelled = true; };
  }, [fn, onClose]);
  \<close>
  Every run of the effect has a \<open>cancelled\<close> flag of its own; \<open>cancelledFlags\<close> holds
  them in the order of the runs, and \<open>outstanding\<close> the runs that are suspended at
  \<open>await fn()\<close>. \<open>timers\<close> are the pending \<open>setTimeout(() => onClose(), ms)\<close>, by their
  delay, and \<open>runnerCloseCalls\<close> counts the calls of \<open>onClose\<close>.

  The runner reacts to events: the effect runs (\<open>Mount\<close>, with what the call \<open>fn()\<close>
  does: a synchronous throw is caught at once, a returned value is awaited), the awaited
  value of run \<open>i\<close> fulfils or rejects, the cleanup of the latest effect runs
  (\<open>Cleanup\<close>, on unmount or before the effect runs again), the oldest timer fires, the
  user clicks the Close button of the error panel.
\<close>

datatype run_status = StatusRunning | StatusDone | StatusError

record runner =
  status :: run_status
  errorMsg :: jsval
  cancelledFlags :: "bool list"
  outstanding :: "nat list"
  timers :: "nat list"
  runnerCloseCalls :: nat

definition initial_runner :: runner where
  "initial_runner =
     \<lparr>status = StatusRunning, errorMsg = JStr [], cancelledFlags = [], outstanding = [],
      timers = [], runnerCloseCalls = 0\<rparr>"

datatype runner_event =
    Mount outcome
  | Fulfils nat jsval
  | Rejects nat jsval
  | Cleanup
  | TimerFires
  | ClickClose

definition is_cancelled :: "runner \<Rightarrow> nat \<Rightarrow> bool" where
  "is_cancelled r i = (i < length (cancelledFlags r) \<and> cancelledFlags r ! i)"

definition on_success :: "nat \<Rightarrow> runner \<Rightarrow> runner" where
  "on_success i r =
     (if \<not> is_cancelled r i then r\<lparr>status := StatusDone, timers := timers r @ [600]\<rparr> else r)"

definition on_catch :: "nat \<Rightarrow> jsval \<Rightarrow> runner \<Rightarrow> runner" where
  "on_catch i e r =
     (if \<not> is_cancelled r i
      then r\<lparr>status := StatusError,
             errorMsg := js_or (get_prop_opt e ''message'') (JStr ''Command failed'')\<rparr>
      else r)"

fun runner_step :: "runner \<Rightarrow> runner_event \<Rightarrow> runner" where
  "runner_step r (Mount fn) =
     (let i = length (cancelledFlags r); r' = r\<lparr>cancelledFlags := cancelledFlags r @ [False]\<rparr>
      in case fn of
           Throws e \<Rightarrow> on_catch i e r'
         | Returns v \<Rightarrow> r'\<lparr>outstanding := outstanding r' @ [i]\<rparr>)"
| "runner_step r (Fulfils i v) =
     (if i \<in> set (outstanding r) then on_success i (r\<lparr>outstanding := removeAll i (outstanding r)\<rparr>)
      else r)"
| "runner_step r (Rejects i e) =
     (if i \<in> set (outstanding r) then on_catch i e (r\<lparr>outstanding := removeAll i (outstanding r)\<rparr>)
      else r)"
| "runner_step r Cleanup =
     (if cancelledFlags r = [] then r
      else r\<lparr>cancelledFlags := (cancelledFlags r)[length (cancelledFlags r) - 1 := True]\<rparr>)"
| "runner_step r TimerFires =
     (case timers r of
        [] \<Rightarrow> r
      | t # ts \<Rightarrow> r\<lparr>timers := ts, runnerCloseCalls := Suc (runnerCloseCalls r)\<rparr>)"
| "runner_step r ClickClose =
     (if status r = StatusError then r\<lparr>runnerCloseCalls := Suc (runnerCloseCalls r)\<rparr> else r)"

definition runner_run :: "runner_event list \<Rightarrow> runner \<Rightarrow> runner" where
  "runner_run evs r = foldl runner_step r evs"

section \<open>The file system of the main process\<close>

text \<open>
  \<open>extension-runner.ts\<close> works on the disk through \<open>fs.existsSync\<close>, \<open>fs.statSync\<close>,
  \<open>fs.readFileSync\<close>, \<open>fs.readdirSync\<close> and \<open>fs.mkdirSync\<close>. The disk is a tree: a file has
  a modification time (milliseconds, as \<open>Date\<close> compares them) and a content, a directory
  a modification time and its entries by name. A path is the list of its segments from
  the root. \<open>path_join p parts\<close> is \<open>path.join\<close>: it splits the parts at the separator and
  normalises the result. Where the parts are the name of an entry that \<open>readdirSync\<close>
  listed, a fixed name, or the name of a command followed by a suffix, the model writes
  \<open>p @ [a, b]\<close>, the join of names that are single segments. Permissions and symbolic
  links are not modelled, and creating an entry leaves the modification time of its
  directory alone.
\<close>

datatype node = File int string | Dir int "(string \<times> node) list"

type_synonym path = "string list"

text \<open>The segments of a text between the separators \<open>/\<close>.\<close>

fun split_path :: "string \<Rightarrow> string list" where
  "split_path [] = [[]]"
| "split_path (c # cs) =
     (if c = CHR ''/'' then [] # split_path cs
      else (case split_path cs of
              [] \<Rightarrow> [[c]]
            | seg # segs \<Rightarrow> (c # seg) # segs))"

text \<open>
  Normalisation as \<open>path.join\<close> does it on an absolute path: empty segments and \<open>.\<close> are
  dropped, and \<open>..\<close> removes the segment before it (at the root it is dropped). The
  first argument is the path built so far, last segment first.
\<close>

fun normalize_onto :: "string list \<Rightarrow> string list \<Rightarrow> path" where
  "normalize_onto acc [] = rev acc"
| "normalize_onto acc (seg # segs) =
     (if seg = [] \<or> seg = ''.'' then normalize_onto acc segs
      else if seg = ''..'' then normalize_onto (tl acc) segs
      else normalize_onto (seg # acc) segs)"

definition path_join :: "path \<Rightarrow> string list \<Rightarrow> path" where
  "path_join p parts = normalize_onto (rev p) (concat (map split_path parts))"

datatype fs_error = ENOENT | ENOTDIR | EISDIR | EEXIST

fun mtime :: "node \<Rightarrow> int" where
  "mtime (File m c) = m"
| "mtime (Dir m es) = m"

fun isDirectory :: "node \<Rightarrow> bool" where
  "isDirectory (Dir m es) = True"
| "isDirectory (File m c) = False"

fun lookup :: "node \<Rightarrow> path \<Rightarrow> node option" where
  "lookup n [] = Some n"
| "lookup (File m c) (x # xs) = None"
| "lookup (Dir m es) (x # xs) = (case map_of es x of None \<Rightarrow> None | Some c \<Rightarrow> lookup c xs)"

definition existsSync :: "node \<Rightarrow> path \<Rightarrow> bool" where
  "existsSync t p = (lookup t p \<noteq> None)"

definition statSync :: "node \<Rightarrow> path \<Rightarrow> fs_error + node" where
  "statSync t p = (case lookup t p of None \<Rightarrow> Inl ENOENT | Some n \<Rightarrow> Inr n)"

definition readFileSync :: "node \<Rightarrow> path \<Rightarrow> fs_error + string" where
  "readFileSync t p =
     (case lookup t p of
        None \<Rightarrow> Inl ENOENT
      | Some (File m c) \<Rightarrow> Inr c
      | Some (Dir m es) \<Rightarrow> Inl EISDIR)"

definition readdirSync :: "node \<Rightarrow> path \<Rightarrow> fs_error + string list" where
  "readdirSync t p =
     (case lookup t p of
        None \<Rightarrow> Inl ENOENT
      | Some (File m c) \<Rightarrow> Inl ENOTDIR
      | Some (Dir m es) \<Rightarrow> Inr (map fst es))"

text \<open>Replacing or adding the entry \<open>x\<close> of a directory.\<close>

fun update_entry :: "string \<Rightarrow> node \<Rightarrow> (string \<times> node) list \<Rightarrow> (string \<times> node) list" where
  "update_entry x n [] = [(x, n)]"
| "update_entry x n ((k, v) # es) = (if k = x then (k, n) # es else (k, v) # update_entry x n es)"

text \<open>
  \<open>put t p n\<close> places the node \<open>n\<close> at the path \<open>p\<close>, whose parent must be an existing
  directory (\<open>None\<close> otherwise: the write fails).
\<close>

fun put :: "node \<Rightarrow> path \<Rightarrow> node \<Rightarrow> node option" where
  "put t [] n = Some n"
| "put (File m c) (x # xs) n = None"
| "put (Dir m es) [x] n = Some (Dir m (update_entry x n es))"
| "put (Dir m es) (x # y # ys) n =
     (case map_of es x of
        None \<Rightarrow> None
      | Some c \<Rightarrow>
          (case put c (y # ys) n of
             None \<Rightarrow> None
           | Some c' \<Rightarrow> Some (Dir m (update_entry x c' es))))"

text \<open>Writing a file: fails on a directory and where the parent is missing.\<close>

definition writeFile :: "node \<Rightarrow> path \<Rightarrow> int \<Rightarrow> string \<Rightarrow> node option" where
  "writeFile t p m c =
     (case lookup t p of
        Some (Dir m' es) \<Rightarrow> None
      | _ \<Rightarrow> put t p (File m c))"

text \<open>\<open>fs.mkdirSync(dir, { recursive: true })\<close> at time \<open>now\<close>; it fails where a file is in the way.\<close>

fun mkdirSync :: "int \<Rightarrow> node \<Rightarrow> path \<Rightarrow> node option" where
  "mkdirSync now (Dir m es) [] = Some (Dir m es)"
| "mkdirSync now (File m c) p = None"
| "mkdirSync now (Dir m es) (x # xs) =
     (case map_of es x of
        None \<Rightarrow>
          (case mkdirSync now (Dir now []) xs of
             None \<Rightarrow> None
           | Some c \<Rightarrow> Some (Dir m (update_entry x c es)))
      | Some c \<Rightarrow>
          (case mkdirSync now c xs of
             None \<Rightarrow> None
           | Some c' \<Rightarrow> Some (Dir m (update_entry x c' es))))"

section \<open>The environment of the main process\<close>

text \<open>
  What the main process calls and this repository does not define: where Electron keeps
  the user data (\<open>getExtensionsDir\<close> is \<open>userData/extensions\<close>), \<open>JSON.parse\<close> (\<open>None\<close>: a
  SyntaxError), base64 encoding, \<open>String.prototype.toLowerCase\<close> (a table of the Unicode
  standard), \<open>npm install\<close> run in an extension directory (the
  \<open>node_modules\<close> tree it leaves, or \<open>None\<close> when the command fails or times out), and
  \<open>esbuild.build\<close> (the text of the bundle for an entry file on a disk, or \<open>None\<close> when
  \<open>require('esbuild')\<close> or the build throws).
\<close>

record env =
  extensionsDir :: path
  parseJSON :: "string \<Rightarrow> jsval option"
  base64 :: "string \<Rightarrow> string"
  lowerCase :: "string \<Rightarrow> string"
  npmInstall :: "path \<Rightarrow> node \<Rightarrow> node option"
  esbuild :: "node \<Rightarrow> path \<Rightarrow> string option"

text \<open>
  The state the build works on: the disk, the clock that stamps what is written, the
  number of calls of \<open>esbuild.build\<close> so far, and the console.
\<close>

record world =
  disk :: node
  clock :: int
  bundlerCalls :: nat
  buildLog :: "console_entry list"

section \<open>Building a command (buildExtensionCommand)\<close>

text \<open>
  \<^verbatim>\<open>
  function getBuildDir(extName: string): string {
    const dir = path.join(getExtensionsDir(), extName, '.sc-build');
    if (!fs.existsSync(dir)) { fs.mkdirSync(dir, { recursive: true }); }
    return dir;
  }
  \<close>
  \<open>None\<close>: \<open>mkdirSync\<close> throws.
\<close>

definition getBuildDir :: "env \<Rightarrow> string \<Rightarrow> world \<Rightarrow> (path \<times> world) option" where
  "getBuildDir E extName w =
     (let dir = extensionsDir E @ [extName, ''.sc-build'']
      in if \<not> existsSync (disk w) dir
         then (case mkdirSync (clock w) (disk w) dir of
                 None \<Rightarrow> None
               | Some t \<Rightarrow> Some (dir, w\<lparr>disk := t\<rparr>))
         else Some (dir, w))"

text \<open>
  \<^verbatim>\<open>
  function resolveEntryFile(extPath: string, cmdName: string): string | null {
    const candidates = [
      path.join(extPath, 'src', `${cmdName}.tsx`), path.join(extPath, 'src', `${cmdName}.ts`),
      path.join(extPath, 'src', `${cmdName}.jsx`), path.join(extPath, 'src', `${cmdName}.js`),
      path.join(extPath, 'src', 'index.tsx'), path.join(extPath, 'src', 'index.ts'),
    ];
    return candidates.find((p) => fs.existsSync(p)) || null;
  }
  \<close>
\<close>

definition entry_candidates :: "path \<Rightarrow> string \<Rightarrow> path list" where
  "entry_candidates extPath cmdName =
     [extPath @ [''src'', cmdName @ ''.tsx''],
      extPath @ [''src'', cmdName @ ''.ts''],
      extPath @ [''src'', cmdName @ ''.jsx''],
      extPath @ [''src'', cmdName @ ''.js''],
      extPath @ [''src'', ''index.tsx''],
      extPath @ [''src'', ''index.ts'']]"

definition resolveEntryFile :: "node \<Rightarrow> path \<Rightarrow> string \<Rightarrow> path option" where
  "resolveEntryFile t extPath cmdName = find (existsSync t) (entry_candidates extPath cmdName)"

text \<open>\<open>Object.keys(v).length\<close> for a value that \<open>JSON.parse\<close> can return.\<close>

fun keys_length :: "jsval \<Rightarrow> nat" where
  "keys_length (JObj ps) = length (remdups (map fst ps))"
| "keys_length (JArr xs) = length xs"
| "keys_length (JStr s) = length s"
| "keys_length v = 0"

text \<open>
  \<^verbatim>\<open>
  const hasDeps =
    (pkg.dependencies && Object.keys(pkg.dependencies).length > 0) ||
    (pkg.devDependencies && Object.keys(pkg.devDependencies).length > 0);
  \<close>
  \<open>None\<close>: the read of a property of \<open>null\<close> throws.
\<close>

definition hasDeps :: "jsval \<Rightarrow> bool option" where
  "hasDeps pkg =
     (case (get_prop pkg ''dependencies'', get_prop pkg ''devDependencies'') of
        (Some d, Some dd) \<Rightarrow>
          Some ((truthy d \<and> keys_length d > 0) \<or> (truthy dd \<and> keys_length dd > 0))
      | _ \<Rightarrow> None)"

text \<open>
  \<^verbatim>\<open>
  async function ensureDepsInstalled(extPath: string): Promise<void> {
    const nodeModules = path.join(extPath, 'node_modules');
    const pkgPath = path.join(extPath, 'package.json');
    if (fs.existsSync(nodeModules)) return;
    if (!fs.existsSync(pkgPath)) return;
    try {
      const pkg = JSON.parse(fs.readFileSync(pkgPath, 'utf-8'));
      const hasDeps = ...;
      if (!hasDeps) return;
    } catch { return; }
    console.log(`Installing dependencies for extension at ${extPath}...`);
    try {
      await execAsync('npm install --production --ignore-scripts 2>&1', { cwd: extPath, timeout: 120_000 });
      console.log(`Dependencies installed for ${extPath}`);
    } catch (e) { console.error(`Failed to install deps for ${extPath}:`, e); }
  }
  \<close>
  The installation writes the \<open>node_modules\<close> directory of the extension and nothing else
  that the build reads. The two \<open>console.log\<close> lines are not kept.
\<close>

definition ensureDepsInstalled :: "env \<Rightarrow> path \<Rightarrow> world \<Rightarrow> world" where
  "ensureDepsInstalled E extPath w =
     (let nodeModules = extPath @ [''node_modules''];
          pkgPath = extPath @ [''package.json'']
      in if existsSync (disk w) nodeModules then w
         else if \<not> existsSync (disk w) pkgPath then w
         else case readFileSync (disk w) pkgPath of
           Inl err \<Rightarrow> w
         | Inr text \<Rightarrow>
             (case parseJSON E text of
                None \<Rightarrow> w
              | Some pkg \<Rightarrow>
                  (case hasDeps pkg of
                     None \<Rightarrow> w
                   | Some False \<Rightarrow> w
                   | Some True \<Rightarrow>
                       (case npmInstall E extPath (disk w) of
                          None \<Rightarrow> w\<lparr>buildLog := buildLog w @ [ConsoleError ''Failed to install deps'']\<rparr>
                        | Some modules \<Rightarrow>
                            (case put (disk w) nodeModules modules of
                               None \<Rightarrow> w\<lparr>buildLog := buildLog w @ [ConsoleError ''Failed to install deps'']\<rparr>
                             | Some t \<Rightarrow> w\<lparr>disk := t\<rparr>)))))"

text \<open>
  The cache test of \<open>buildExtensionCommand\<close>:
  \<^verbatim>\<open>
  if (fs.existsSync(outFile)) {
    try {
      const srcMtime = fs.statSync(entryFile).mtime;
      const outMtime = fs.statSync(outFile).mtime;
      if (outMtime > srcMtime) { return fs.readFileSync(outFile, 'utf-8'); }
    } catch {}
  }
  \<close>
  \<open>Some text\<close>: the function returns the cached text. \<open>None\<close>: it goes on to the bundler.
\<close>

definition cached_bundle :: "node \<Rightarrow> path \<Rightarrow> path \<Rightarrow> string option" where
  "cached_bundle t entryFile outFile =
     (if existsSync t outFile then
        (case statSync t entryFile of
           Inl err \<Rightarrow> None
         | Inr src \<Rightarrow>
             (case statSync t outFile of
                Inl err \<Rightarrow> None
              | Inr out \<Rightarrow>
                  if mtime out > mtime src then
                    (case readFileSync t outFile of Inl err \<Rightarrow> None | Inr text \<Rightarrow> Some text)
                  else None))
      else None)"

text \<open>
  The bundler step:
  \<^verbatim>\<open>
  try {
    const esbuild = require('esbuild');
    ...
    await esbuild.build({ entryPoints: [entryFile], bundle: true, ..., outfile: outFile, ... });
    if (fs.existsSync(outFile)) { return fs.readFileSync(outFile, 'utf-8'); }
  } catch (e) { console.error(`esbuild failed for ${extName}/${cmdName}:`, e); }
  return null;
  \<close>
  A build that succeeds writes its text to \<open>outFile\<close>, stamped with the clock; a write that
  fails is a failed build.
\<close>

definition esbuild_failed :: "string \<Rightarrow> string \<Rightarrow> console_entry" where
  "esbuild_failed extName cmdName = ConsoleError (''esbuild failed for '' @ extName @ ''/'' @ cmdName @ '':'')"

definition run_bundler :: "env \<Rightarrow> string \<Rightarrow> string \<Rightarrow> path \<Rightarrow> path \<Rightarrow> world \<Rightarrow> string option \<times> world" where
  "run_bundler E extName cmdName entryFile outFile w =
     (let w' = w\<lparr>bundlerCalls := Suc (bundlerCalls w)\<rparr>;
          failed = (None, w'\<lparr>buildLog := buildLog w' @ [esbuild_failed extName cmdName]\<rparr>)
      in case esbuild E (disk w) entryFile of
           None \<Rightarrow> failed
         | Some text \<Rightarrow>
             (case writeFile (disk w) outFile (clock w) text of
                None \<Rightarrow> failed
              | Some t \<Rightarrow>
                  (let w'' = w'\<lparr>disk := t\<rparr>
                   in if existsSync t outFile then
                        (case readFileSync t outFile of
                           Inl err \<Rightarrow> (None, w''\<lparr>buildLog := buildLog w'' @ [esbuild_failed extName cmdName]\<rparr>)
                         | Inr out \<Rightarrow> (Some out, w''))
                      else (None, w''))))"

text \<open>
  \<^verbatim>\<open>
  export async function buildExtensionCommand(extName, cmdName): Promise<string | null> {
    const extPath = path.join(getExtensionsDir(), extName);
    if (!fs.existsSync(extPath)) return null;
    await ensureDepsInstalled(extPath);
    const entryFile = resolveEntryFile(extPath, cmdName);
    if (!entryFile) { console.error(`No entry file found for extension ${extName}/${cmdName}`); return null; }
    const outFile = path.join(getBuildDir(extName), `${cmdName}.js`);
    ... the cache test ...
    ... the bundler step ...
  }
  \<close>
  \<open>Inl\<close>: the promise rejects (\<open>getBuildDir\<close> is outside every \<open>try\<close>). \<open>Inr None\<close> is
  \<open>null\<close>.
\<close>

definition no_entry_file :: "string \<Rightarrow> string \<Rightarrow> console_entry" where
  "no_entry_file extName cmdName =
     ConsoleError (''No entry file found for extension '' @ extName @ ''/'' @ cmdName)"

definition buildExtensionCommand ::
  "env \<Rightarrow> string \<Rightarrow> string \<Rightarrow> world \<Rightarrow> (fs_error + string option) \<times> world" where
  "buildExtensionCommand E extName cmdName w =
     (let extPath = extensionsDir E @ [extName]
      in if \<not> existsSync (disk w) extPath then (Inr None, w)
         else
           (let w1 = ensureDepsInstalled E extPath w
            in case resolveEntryFile (disk w1) extPath cmdName of
                 None \<Rightarrow> (Inr None, w1\<lparr>buildLog := buildLog w1 @ [no_entry_file extName cmdName]\<rparr>)
               | Some entryFile \<Rightarrow>
                   (case getBuildDir E extName w1 of
                      None \<Rightarrow> (Inl EEXIST, w1)
                    | Some (buildDir, w2) \<Rightarrow>
                        (let outFile = buildDir @ [cmdName @ ''.js'']
                         in case cached_bundle (disk w2) entryFile outFile of
                              Some text \<Rightarrow> (Inr (Some text), w2)
                            | None \<Rightarrow>
                                (case run_bundler E extName cmdName entryFile outFile w2 of
                                   (r, w3) \<Rightarrow> (Inr r, w3))))))"

section \<open>A small installation, for evaluating the build\<close>

text \<open>
  One extension \<open>todo\<close> with the command \<open>list\<close>: its entry \<open>src/list.tsx\<close> was modified
  at time 100, and the cache holds \<open>list.js\<close> written at the given time. The environment
  has a bundler that always answers with the same text.
\<close>

text \<open>Lower case for the letters A to Z, which is all the examples need.\<close>

definition lower_char :: "char \<Rightarrow> char" where
  "lower_char c =
     (let n = (of_char c :: nat) in if 65 \<le> n \<and> n \<le> 90 then char_of (n + 32) else c)"

definition demo_env :: env where
  "demo_env =
     \<lparr>extensionsDir = [''userData'', ''extensions''],
      parseJSON = (\<lambda>s. None),
      base64 = (\<lambda>s. s),
      lowerCase = map lower_char,
      npmInstall = (\<lambda>p t. None),
      esbuild = (\<lambda>t p. Some ''module.exports = fresh'')\<rparr>"

definition demo_disk :: "int \<Rightarrow> node" where
  "demo_disk cacheTime =
     Dir 0 [(''userData'', Dir 0 [(''extensions'', Dir 0 [(''todo'', Dir 0
       [(''src'', Dir 0 [(''list.tsx'', File 100 ''export default List'')]),
        (''.sc-build'', Dir 0 [(''list.js'', File cacheTime ''module.exports = cached'')])])])])]"

definition demo_world :: "int \<Rightarrow> world" where
  "demo_world cacheTime = \<lparr>disk = demo_disk cacheTime, clock = 500, bundlerCalls = 0, buildLog = []\<rparr>"

section \<open>Discovery (discoverInstalledExtensionCommands)\<close>

text \<open>
  The descriptor of one command. The TypeScript interface types every field as a string;
  at run time \<open>title\<close>, \<open>cmdName\<close>, \<open>description\<close> and \<open>mode\<close> hold whatever value the
  manifest had, so they are values here. The fields carry the prefix \<open>info_\<close> (the source
  names them \<open>id\<close>, \<open>title\<close>, \<open>extName\<close>, \<open>cmdName\<close>, \<open>description\<close>, \<open>mode\<close>, \<open>keywords\<close>,
  \<open>iconDataUrl\<close>).
\<close>

record ExtensionCommandInfo =
  info_id :: string
  info_title :: jsval
  info_extName :: string
  info_cmdName :: jsval
  info_description :: jsval
  info_mode :: jsval
  info_keywords :: "string list"
  info_iconDataUrl :: "string option"

text \<open>
  \<open>for (const x of v)\<close> over a value of \<open>JSON.parse\<close>: the elements of an array, the
  characters of a string; anything else is not iterable (\<open>None\<close>: a TypeError).
\<close>

fun iterate :: "jsval \<Rightarrow> jsval list option" where
  "iterate (JArr xs) = Some xs"
| "iterate (JStr s) = Some (map (\<lambda>c. JStr [c]) s)"
| "iterate v = None"

text \<open>
  \<open>s.toLowerCase()\<close>: only a string has the method (\<open>None\<close>: "s.toLowerCase is not a
  function"); what it makes of a string is the environment's \<open>lowerCase\<close>.
\<close>

fun toLowerCase :: "env \<Rightarrow> jsval \<Rightarrow> string option" where
  "toLowerCase E (JStr s) = Some (lowerCase E s)"
| "toLowerCase E v = None"

text \<open>
  \<open>path.extname\<close>, on the last segment of a path: from the last dot on, empty when there
  is no dot or the only dot leads the name.
\<close>

definition extname :: "string \<Rightarrow> string" where
  "extname b =
     (if CHR ''.'' \<notin> set b then []
      else (let ext = CHR ''.'' # rev (takeWhile (\<lambda>c. c \<noteq> CHR ''.'') (rev b))
            in if length ext = length b \<or> b = ''..'' then [] else ext))"

text \<open>
  \<^verbatim>\<open>
  function getExtensionIconDataUrl(extPath: string, iconFile: string): string | undefined {
    const candidates = [path.join(extPath, 'assets', iconFile), path.join(extPath, iconFile)];
    for (const p of candidates) {
      if (!fs.existsSync(p)) continue;
      try {
        const ext = path.extname(p).toLowerCase();
        const data = fs.readFileSync(p);
        if (data.length < 50) continue;
        const mime = ext === '.svg' ? 'image/svg+xml'
          : ext === '.jpg' || ext === '.jpeg' ? 'image/jpeg' : 'image/png';
        return `data:${mime};base64,${data.toString('base64')}`;
      } catch {}
    }
    return undefined;
  }
  \<close>
\<close>

definition mime_of :: "string \<Rightarrow> string" where
  "mime_of ext =
     (if ext = ''.svg'' then ''image/svg+xml''
      else if ext = ''.jpg'' \<or> ext = ''.jpeg'' then ''image/jpeg''
      else ''image/png'')"

fun icon_from :: "env \<Rightarrow> node \<Rightarrow> path list \<Rightarrow> string option" where
  "icon_from E t [] = None"
| "icon_from E t (p # ps) =
     (if \<not> existsSync t p then icon_from E t ps
      else case readFileSync t p of
        Inl err \<Rightarrow> icon_from E t ps
      | Inr data \<Rightarrow>
          if length data < 50 then icon_from E t ps
          else Some (''data:'' @ mime_of (lowerCase E (extname (if p = [] then [] else last p)))
                     @ '';base64,'' @ base64 E data))"

definition getExtensionIconDataUrl :: "env \<Rightarrow> node \<Rightarrow> path \<Rightarrow> string \<Rightarrow> string option" where
  "getExtensionIconDataUrl E t extPath iconFile =
     icon_from E t [path_join extPath [''assets'', iconFile], path_join extPath [iconFile]]"

text \<open>
  One turn of the loop over the commands of a manifest:
  \<^verbatim>\<open>
  for (const cmd of pkg.commands || []) {
    if (!cmd.name) continue;
    results.push({
      id: `ext-${dir}-${cmd.name}`,
      title: cmd.title || cmd.name,
      extName: dir,
      cmdName: cmd.name,
      description: cmd.description || '',
      mode: cmd.mode || 'view',
      keywords: [dir, pkg.title || '', cmd.name, cmd.title || '', cmd.description || '']
        .filter(Boolean).map((s: string) => s.toLowerCase()),
      iconDataUrl,
    });
  }
  \<close>
  The turn skips the command, pushes a descriptor, or throws (\<open>Abort\<close>): \<open>cmd.name\<close> on a
  \<open>null\<close> entry, and \<open>toLowerCase\<close> on a keyword that is not a string. The name is one of
  the keywords, so a descriptor is pushed only for a name that is a string, and the
  template literal of \<open>id\<close> only ever shows a string.
\<close>

datatype turn = Skip | Emit ExtensionCommandInfo | Abort

definition command_info :: "env \<Rightarrow> string \<Rightarrow> jsval \<Rightarrow> string option \<Rightarrow> jsval \<Rightarrow> turn" where
  "command_info E dir pkg iconDataUrl cmd =
     (case get_prop cmd ''name'' of
        None \<Rightarrow> Abort
      | Some name \<Rightarrow>
          if \<not> truthy name then Skip
          else
            (let ctitle = get_prop_opt cmd ''title'';
                 cdescription = get_prop_opt cmd ''description'';
                 cmode = get_prop_opt cmd ''mode'';
                 ptitle = get_prop_opt pkg ''title''
             in case those (map (toLowerCase E) (filter truthy
                       [JStr dir, js_or ptitle (JStr []), name, js_or ctitle (JStr []),
                        js_or cdescription (JStr [])])) of
                  None \<Rightarrow> Abort
                | Some kws \<Rightarrow>
                    (case name of
                       JStr n \<Rightarrow>
                         Emit \<lparr>info_id = ''ext-'' @ dir @ ''-'' @ n,
                               info_title = js_or ctitle name,
                               info_extName = dir,
                               info_cmdName = name,
                               info_description = js_or cdescription (JStr []),
                               info_mode = js_or cmode (JStr ''view''),
                               info_keywords = kws,
                               info_iconDataUrl = iconDataUrl\<rparr>
                     | _ \<Rightarrow> Abort)))"

text \<open>The loop: what was pushed before a throw stays in \<open>results\<close>.\<close>

fun push_commands ::
  "env \<Rightarrow> string \<Rightarrow> jsval \<Rightarrow> string option \<Rightarrow> jsval list \<Rightarrow> ExtensionCommandInfo list
     \<Rightarrow> ExtensionCommandInfo list" where
  "push_commands E dir pkg iconDataUrl [] results = results"
| "push_commands E dir pkg iconDataUrl (cmd # cmds) results =
     (case command_info E dir pkg iconDataUrl cmd of
        Skip \<Rightarrow> push_commands E dir pkg iconDataUrl cmds results
      | Emit info \<Rightarrow> push_commands E dir pkg iconDataUrl cmds (results @ [info])
      | Abort \<Rightarrow> results)"


text \<open>
  The body of the loop over the entries of the extensions directory:
  \<^verbatim>\<open>
  const extPath = path.join(extDir, dir);
  const pkgPath = path.join(extPath, 'package.json');
  try { if (!fs.statSync(extPath).isDirectory()) continue; } catch { continue; }
  if (!fs.existsSync(pkgPath)) continue;
  try {
    const pkg = JSON.parse(fs.readFileSync(pkgPath, 'utf-8'));
    const iconDataUrl = getExtensionIconDataUrl(extPath, pkg.icon || 'icon.png');
    for (const cmd of pkg.commands || []) { ... }
  } catch {}
  \<close>
  \<open>pkg.icon\<close> throws on a manifest that is \<open>null\<close>, and \<open>path.join\<close> throws on an icon that
  is not a string.
\<close>

definition scan_extension ::
  "env \<Rightarrow> node \<Rightarrow> string \<Rightarrow> ExtensionCommandInfo list \<Rightarrow> ExtensionCommandInfo list" where
  "scan_extension E t dir results =
     (let extPath = extensionsDir E @ [dir];
          pkgPath = extPath @ [''package.json'']
      in case statSync t extPath of
           Inl err \<Rightarrow> results
         | Inr st \<Rightarrow>
             if \<not> isDirectory st then results
             else if \<not> existsSync t pkgPath then results
             else case readFileSync t pkgPath of
               Inl err \<Rightarrow> results
             | Inr manifest \<Rightarrow>
                 (case parseJSON E manifest of
                    None \<Rightarrow> results
                  | Some pkg \<Rightarrow>
                      (case get_prop pkg ''icon'' of
                         None \<Rightarrow> results
                       | Some icon \<Rightarrow>
                           (case js_or icon (JStr ''icon.png'') of
                              JStr iconFile \<Rightarrow>
                                (let iconDataUrl = getExtensionIconDataUrl E t extPath iconFile
                                 in case iterate (js_or (get_prop_opt pkg ''commands'') (JArr [])) of
                                      None \<Rightarrow> results
                                    | Some cmds \<Rightarrow> push_commands E dir pkg iconDataUrl cmds results)
                            | _ \<Rightarrow> results))))"

text \<open>
  \<^verbatim>\<open>
  export function discoverInstalledExtensionCommands(): ExtensionCommandInfo[] {
    const extDir = getExtensionsDir();
    if (!fs.existsSync(extDir)) return [];
    const results: ExtensionCommandInfo[] = [];
    for (const dir of fs.readdirSync(extDir)) { ... }
    return results;
  }
  \<close>
  \<open>Inl\<close>: the function throws (\<open>readdirSync\<close> is outside every \<open>try\<close>).
\<close>

definition discoverInstalledExtensionCommands :: "env \<Rightarrow> node \<Rightarrow> fs_error + ExtensionCommandInfo list" where
  "discoverInstalledExtensionCommands E t =
     (let extDir = extensionsDir E
      in if \<not> existsSync t extDir then Inr []
         else case readdirSync t extDir of
           Inl err \<Rightarrow> Inl err
         | Inr dirs \<Rightarrow> Inr (foldl (\<lambda>results dir. scan_extension E t dir results) [] dirs))"

subsection \<open>Installed extensions, for evaluating the discovery\<close>







section \<open>Navigation: push and pop\<close>

lemma nav_run_append: "nav_run (xs @ ys) s = nav_run ys (nav_run xs s)"
  by (simp add: nav_run_def)

lemma nav_run_pushes:
  "nav_run (map Push es) s = s\<lparr>navStack := navStack s @ es\<rparr>"
proof (induction es arbitrary: s)
  case Nil
  show ?case by (simp add: nav_run_def)
next
  case (Cons e es)
  have "nav_run (map Push (e # es)) s = nav_run (map Push es) (push e s)"
    by (simp add: nav_run_def)
  also have "\<dots> = (push e s)\<lparr>navStack := navStack (push e s) @ es\<rparr>"
    by (rule Cons.IH)
  also have "\<dots> = s\<lparr>navStack := navStack s @ e # es\<rparr>"
    by (simp add: push_def)
  finally show ?case .
qed

lemma nav_run_pops:
  "nav_run (replicate (length es) Pop) (s\<lparr>navStack := base @ es\<rparr>) = s\<lparr>navStack := base\<rparr>"
proof (induction es arbitrary: s rule: rev_induct)
  case Nil
  show ?case by (simp add: nav_run_def)
next
  case (snoc e es)
  have "nav_run (replicate (length (es @ [e])) Pop) (s\<lparr>navStack := base @ es @ [e]\<rparr>)
      = nav_run (replicate (length es) Pop) (pop (s\<lparr>navStack := (base @ es) @ [e]\<rparr>))"
    by (simp add: nav_run_def)
  also have "pop (s\<lparr>navStack := (base @ es) @ [e]\<rparr>) = s\<lparr>navStack := base @ es\<rparr>"
    by (simp add: pop_def butlast_append)
  also have "nav_run (replicate (length es) Pop) (s\<lparr>navStack := base @ es\<rparr>) = s\<lparr>navStack := base\<rparr>"
    by (rule snoc.IH)
  finally show ?case by simp
qed

text \<open>
  Claim C6. In one command session, \<open>push\<close> appends a frame to the navigation stack and
  closes nothing; \<open>pop\<close> on a stack with a top frame removes exactly that frame and
  closes nothing; \<open>pop\<close> on the empty stack leaves the stack empty and calls \<open>onClose\<close>
  once. Hence, from the empty stack of a fresh session, pushing N frames and popping N
  times gives the empty stack again with no call of \<open>onClose\<close>, and the pop after that
  is the first call of \<open>onClose\<close>.
\<close>

theorem navigation_push_pop:
  "push e s = s\<lparr>navStack := navStack s @ [e]\<rparr>
   \<and> pop (s\<lparr>navStack := fs @ [f]\<rparr>) = s\<lparr>navStack := fs\<rparr>
   \<and> pop (s\<lparr>navStack := []\<rparr>) = s\<lparr>navStack := [], onCloseCalls := Suc (onCloseCalls s)\<rparr>
   \<and> nav_run (map Push es @ replicate (length es) Pop) initial_session = initial_session
   \<and> nav_run (map Push es @ replicate (length es) Pop @ [Pop]) initial_session
       = initial_session\<lparr>onCloseCalls := 1\<rparr>"
proof -
  have a: "push e s = s\<lparr>navStack := navStack s @ [e]\<rparr>"
    by (simp add: push_def)
  have b: "pop (s\<lparr>navStack := fs @ [f]\<rparr>) = s\<lparr>navStack := fs\<rparr>"
    by (simp add: pop_def)
  have c: "pop (s\<lparr>navStack := []\<rparr>) = s\<lparr>navStack := [], onCloseCalls := Suc (onCloseCalls s)\<rparr>"
    by (simp add: pop_def)
  have up: "nav_run (map Push es) initial_session = initial_session\<lparr>navStack := [] @ es\<rparr>"
    by (simp add: nav_run_pushes initial_session_def)
  have down: "nav_run (replicate (length es) Pop) (initial_session\<lparr>navStack := [] @ es\<rparr>)
      = initial_session\<lparr>navStack := []\<rparr>"
    by (rule nav_run_pops)
  have same: "initial_session\<lparr>navStack := []\<rparr> = initial_session"
    by (simp add: initial_session_def)
  have d: "nav_run (map Push es @ replicate (length es) Pop) initial_session = initial_session"
    using up down same by (simp add: nav_run_append)
  have "nav_run (map Push es @ replicate (length es) Pop @ [Pop]) initial_session
      = nav_run [Pop] (nav_run (map Push es @ replicate (length es) Pop) initial_session)"
    by (simp only: nav_run_append append_assoc [symmetric])
  also have "\<dots> = nav_run [Pop] initial_session"
    by (simp only: d)
  also have "\<dots> = pop initial_session"
    by (simp add: nav_run_def)
  also have "\<dots> = initial_session\<lparr>onCloseCalls := 1\<rparr>"
    by (simp add: pop_def initial_session_def)
  finally have e: "nav_run (map Push es @ replicate (length es) Pop @ [Pop]) initial_session
      = initial_session\<lparr>onCloseCalls := 1\<rparr>" .
  from a b c d e show ?thesis by blast
qed

section \<open>The loader: default export, fallback and failure\<close>

lemma loadExtensionExport_raised:
  "run (ensureGlobals g) fakeRequire code = Raised e \<Longrightarrow>
   loadExtensionExport run g code = (ensureGlobals g, None, [load_failed])"
  by (simp add: loadExtensionExport_def)

lemma loadExtensionExport_completed:
  "run (ensureGlobals g) fakeRequire code = Completed exports \<Longrightarrow>
   loadExtensionExport run g code =
     (case get_prop exports ''default'' of
        None \<Rightarrow> (ensureGlobals g, None, [load_failed])
      | Some d \<Rightarrow>
          if is_function (js_or d exports) then (ensureGlobals g, Some (js_or d exports), [])
          else (ensureGlobals g, None, [not_a_function]))"
  by (simp add: loadExtensionExport_def Let_def split: option.splits)

text \<open>
  Claim C8. After the bundle's text has run, the loader reads \<open>exports.default\<close> and
  falls back to the whole exports object when that is falsy; if the value so chosen is a
  function it is returned, otherwise the load fails: \<open>null\<close> is returned and
  "Extension did not export a function" is logged. An error raised while the bundle is
  built or run (a syntax error, a runtime error), and equally the TypeError of reading
  \<open>.default\<close> from exports that the bundle set to \<open>null\<close> or \<open>undefined\<close>, is caught: the
  loader returns \<open>null\<close> and logs "Failed to load extension:".
\<close>

theorem loader_default_export_or_null:
  "(run (ensureGlobals g) fakeRequire code = Raised e \<longrightarrow>
      loadExtensionExport run g code = (ensureGlobals g, None, [load_failed]))
   \<and> (run (ensureGlobals g) fakeRequire code = Completed exports \<longrightarrow>
        get_prop exports ''default'' = Some d \<longrightarrow>
        loadExtensionExport run g code =
          (let exported = (if truthy d then d else exports)
           in if is_function exported then (ensureGlobals g, Some exported, [])
              else (ensureGlobals g, None, [not_a_function])))
   \<and> (run (ensureGlobals g) fakeRequire code = Completed exports \<longrightarrow>
        get_prop exports ''default'' = None \<longrightarrow>
        loadExtensionExport run g code = (ensureGlobals g, None, [load_failed]))"
  by (simp add: loadExtensionExport_raised loadExtensionExport_completed js_or_def Let_def)

theorem loader_default_export_or_null_witness:
  "loadExtensionExport (\<lambda>g r c. Raised (JStr ''SyntaxError'')) Map.empty ''('' =
      (ensureGlobals Map.empty, None, [load_failed])
   \<and> loadExtensionExport
        (\<lambda>g r c. Completed (JObj [(''default'', JFun (User (Returns (JElement ''List''))) [])]))
        Map.empty ''exports.default = Command'' =
      (ensureGlobals Map.empty, Some (JFun (User (Returns (JElement ''List''))) []), [])
   \<and> loadExtensionExport (\<lambda>g r c. Completed JNull) Map.empty ''module.exports = null'' =
      (ensureGlobals Map.empty, None, [load_failed])"
  using loader_default_export_or_null
          [of "\<lambda>g r c. Raised (JStr ''SyntaxError'')" Map.empty "''(''" "JStr ''SyntaxError''"
              JNull JNull]
        loader_default_export_or_null
          [of "\<lambda>g r c. Completed (JObj [(''default'', JFun (User (Returns (JElement ''List''))) [])])"
              Map.empty "''exports.default = Command''" JNull
              "JObj [(''default'', JFun (User (Returns (JElement ''List''))) [])]"
              "JFun (User (Returns (JElement ''List''))) []"]
        loader_default_export_or_null
          [of "\<lambda>g r c. Completed JNull" Map.empty "''module.exports = null''" JNull JNull JNull]
  by simp

text \<open>
  Claim C10. The fallback to the whole exports object is taken on any falsy
  \<open>default\<close>, not only on a missing one. A bundle that leaves a function without a
  \<open>default\<close> property in \<open>module.exports\<close> loads, and that function is returned. A
  bundle whose exports have a \<open>default\<close> property with a falsy value (\<open>0\<close>, \<open>false\<close>,
  the empty string, \<open>null\<close>, \<open>undefined\<close>) loads exactly when the exports object is
  itself a function, which is also what happens when \<open>default\<close> reads \<open>undefined\<close>
  because it is absent.
\<close>

theorem fallback_on_falsy_default:
  "(run (ensureGlobals g) fakeRequire code = Completed (JFun b ps) \<longrightarrow>
      map_of ps ''default'' = None \<longrightarrow>
      loaded (loadExtensionExport run g code) = Some (JFun b ps))
   \<and> (run (ensureGlobals g) fakeRequire code = Completed exports \<longrightarrow>
        get_prop exports ''default'' = Some d \<longrightarrow> \<not> truthy d \<longrightarrow>
        loaded (loadExtensionExport run g code) = (if is_function exports then Some exports else None))
   \<and> (run (ensureGlobals g) fakeRequire code = Completed exports \<longrightarrow>
        get_prop exports ''default'' = Some JUndefined \<longrightarrow>
        loaded (loadExtensionExport run g code) = (if is_function exports then Some exports else None))"
  by (simp add: loadExtensionExport_completed js_or_def loaded_def)

theorem fallback_on_falsy_default_witness:
  "loaded (loadExtensionExport (\<lambda>g r c. Completed (JFun (User (Returns (JElement ''Detail''))) []))
       Map.empty ''module.exports = Command'') = Some (JFun (User (Returns (JElement ''Detail''))) [])
   \<and> loaded (loadExtensionExport (\<lambda>g r c. Completed (JObj [(''default'', JNum 0)]))
       Map.empty ''exports.default = 0'') = None
   \<and> loaded (loadExtensionExport (\<lambda>g r c. Completed (JFun (User (Returns JNull)) [(''default'', JStr [])]))
       Map.empty ''code'') = Some (JFun (User (Returns JNull)) [(''default'', JStr [])])
   \<and> loaded (loadExtensionExport (\<lambda>g r c. Completed (JObj []))
       Map.empty ''code'') = None"
  using fallback_on_falsy_default
          [of "\<lambda>g r c. Completed (JFun (User (Returns (JElement ''Detail''))) [])" Map.empty
              "''module.exports = Command''" "User (Returns (JElement ''Detail''))" "[]" JNull JNull]
        fallback_on_falsy_default
          [of "\<lambda>g r c. Completed (JObj [(''default'', JNum 0)])" Map.empty
              "''exports.default = 0''" "Const JNull" "[]" "JObj [(''default'', JNum 0)]" "JNum 0"]
        fallback_on_falsy_default
          [of "\<lambda>g r c. Completed (JFun (User (Returns JNull)) [(''default'', JStr [])])" Map.empty
              "''code''" "Const JNull" "[]" "JFun (User (Returns JNull)) [(''default'', JStr [])]" "JStr []"]
        fallback_on_falsy_default
          [of "\<lambda>g r c. Completed (JObj [])" Map.empty
              "''code''" "Const JNull" "[]" "JObj []" "JNull"]
  by simp

section \<open>The globals the loader injects (ensureGlobals)\<close>

lemma truthy_processStub: "truthy processStub"
  by (simp add: processStub_def)

lemma truthy_Buffer: "truthy bufferStub_Buffer"
  by (simp add: bufferStub_Buffer_def)

lemma truthy_globalThis: "truthy globalThis"
  by (simp add: globalThis_def)

lemma ensure_global_truthy: "truthy v \<Longrightarrow> truthy (read_global (ensure_global k v g) k)"
  by (simp add: ensure_global_def read_global_def)

lemma ensure_global_other: "k' \<noteq> k \<Longrightarrow> ensure_global k v g k' = g k'"
  by (simp add: ensure_global_def)

lemma read_global_other: "k' \<noteq> k \<Longrightarrow> read_global (ensure_global k v g) k' = read_global g k'"
  by (simp add: read_global_def ensure_global_other)

lemma ensure_global_keeps: "truthy (read_global g k') \<Longrightarrow> ensure_global k v g k' = g k'"
  by (auto simp add: ensure_global_def)

lemma ensure_global_sets: "\<not> truthy (read_global g k) \<Longrightarrow> ensure_global k v g k = Some v"
  by (simp add: ensure_global_def)

lemma ensure_global_idem: "truthy (read_global g k) \<Longrightarrow> ensure_global k v g = g"
  by (simp add: ensure_global_def)

lemma ensureGlobals_truthy:
  "truthy (read_global (ensureGlobals g) ''process'')"
  "truthy (read_global (ensureGlobals g) ''Buffer'')"
  "truthy (read_global (ensureGlobals g) ''global'')"
  by (simp_all add: ensureGlobals_def read_global_other ensure_global_truthy
        truthy_processStub truthy_Buffer truthy_globalThis)

lemma ensureGlobals_idem: "ensureGlobals (ensureGlobals g) = ensureGlobals g"
proof -
  have p: "ensure_global ''process'' processStub (ensureGlobals g) = ensureGlobals g"
    by (rule ensure_global_idem) (rule ensureGlobals_truthy)
  have b: "ensure_global ''Buffer'' bufferStub_Buffer (ensureGlobals g) = ensureGlobals g"
    by (rule ensure_global_idem) (rule ensureGlobals_truthy)
  have gl: "ensure_global ''global'' globalThis (ensureGlobals g) = ensureGlobals g"
    by (rule ensure_global_idem) (rule ensureGlobals_truthy)
  have "ensureGlobals (ensureGlobals g) =
      ensure_global ''global'' globalThis
       (ensure_global ''Buffer'' bufferStub_Buffer
         (ensure_global ''process'' processStub (ensureGlobals g)))"
    by (simp only: ensureGlobals_def [of "ensureGlobals g"])
  then show ?thesis by (simp only: p b gl)
qed

lemma ensureGlobals_keeps: "truthy (read_global g k) \<Longrightarrow> ensureGlobals g k = g k"
  by (auto simp add: ensureGlobals_def ensure_global_def read_global_def)

lemma ensureGlobals_frame:
  "k \<noteq> ''process'' \<Longrightarrow> k \<noteq> ''Buffer'' \<Longrightarrow> k \<noteq> ''global'' \<Longrightarrow> ensureGlobals g k = g k"
  by (simp add: ensureGlobals_def ensure_global_other)

lemma ensureGlobals_sets:
  "\<not> truthy (read_global g ''process'') \<Longrightarrow> ensureGlobals g ''process'' = Some processStub"
  "\<not> truthy (read_global g ''Buffer'') \<Longrightarrow> ensureGlobals g ''Buffer'' = Some bufferStub_Buffer"
  "\<not> truthy (read_global g ''global'') \<Longrightarrow> ensureGlobals g ''global'' = Some globalThis"
  by (simp_all add: ensureGlobals_def ensure_global_def read_global_def)

lemma loadExtensionExport_globals: "fst (loadExtensionExport run g code) = ensureGlobals g"
  by (simp add: loadExtensionExport_def Let_def split: exec_result.splits option.splits)

text \<open>
  The injection is gated on truthiness, not on presence: a global that is present with a
  falsy value is overwritten. Here \<open>process\<close> is present as \<open>0\<close> and leaves as the
  process stub, against the reading of claim C4 that a global already present is never
  overwritten.
\<close>

theorem ensureGlobals_overwrites_falsy_global:
  "[''process'' \<mapsto> JNum 0] ''process'' = Some (JNum 0)
   \<and> ensureGlobals [''process'' \<mapsto> JNum 0] ''process'' = Some processStub
   \<and> processStub \<noteq> JNum 0"
  by (simp add: ensureGlobals_def ensure_global_def read_global_def processStub_def)

text \<open>
  Claim C4, as amended. \<open>loadExtensionExport\<close> calls \<open>ensureGlobals\<close> first, on every
  load, so a bundle runs with three globals holding truthy values: \<open>process\<close> (the
  platform-identity stub), \<open>Buffer\<close> (the buffer stub) and \<open>global\<close> (an alias of the
  global object). The global object under its own name, \<open>globalThis\<close>, is what the
  three are written to; the loader never assigns it. Each injection is gated on the
  global's current value: a truthy value is kept, one that is absent or falsy is replaced
  by the stub; no other global is touched. The injection is idempotent, so a second load
  finds the globals of the first and creates nothing.
\<close>

theorem ensureGlobals_truthiness_gated:
  "truthy (read_global (ensureGlobals g) ''process'')
   \<and> truthy (read_global (ensureGlobals g) ''Buffer'')
   \<and> truthy (read_global (ensureGlobals g) ''global'')
   \<and> (truthy (read_global g k) \<longrightarrow> ensureGlobals g k = g k)
   \<and> (\<not> truthy (read_global g ''process'') \<longrightarrow> ensureGlobals g ''process'' = Some processStub)
   \<and> (\<not> truthy (read_global g ''Buffer'') \<longrightarrow> ensureGlobals g ''Buffer'' = Some bufferStub_Buffer)
   \<and> (\<not> truthy (read_global g ''global'') \<longrightarrow> ensureGlobals g ''global'' = Some globalThis)
   \<and> (k \<notin> {''process'', ''Buffer'', ''global''} \<longrightarrow> ensureGlobals g k = g k)
   \<and> ensureGlobals (ensureGlobals g) = ensureGlobals g
   \<and> fst (loadExtensionExport run g code) = ensureGlobals g
   \<and> fst (loadExtensionExport run' (fst (loadExtensionExport run g code)) code') = ensureGlobals g"
  using ensureGlobals_truthy [of g] ensureGlobals_keeps [of g k] ensureGlobals_sets [of g]
    ensureGlobals_frame [of k g] ensureGlobals_idem [of g]
  by (simp add: loadExtensionExport_globals)

theorem ensureGlobals_truthiness_gated_witness:
  "ensureGlobals [''Buffer'' \<mapsto> JPlatform ''NodeBuffer''] ''Buffer'' = Some (JPlatform ''NodeBuffer'')
   \<and> ensureGlobals [''Buffer'' \<mapsto> JPlatform ''NodeBuffer''] ''process'' = Some processStub
   \<and> ensureGlobals [''Buffer'' \<mapsto> JPlatform ''NodeBuffer''] ''global'' = Some globalThis
   \<and> ensureGlobals [''Buffer'' \<mapsto> JNull] ''Buffer'' = Some bufferStub_Buffer
   \<and> ensureGlobals [''Buffer'' \<mapsto> JNull] ''window'' = None"
  using ensureGlobals_truthiness_gated [of "[''Buffer'' \<mapsto> JPlatform ''NodeBuffer'']" "''Buffer''"]
        ensureGlobals_truthiness_gated [of "[''Buffer'' \<mapsto> JNull]" "''window''"]
  by (simp add: read_global_def)

section \<open>Module resolution (fakeRequire)\<close>

lemma nodeBuiltinStubs_literal_keys:
  "map fst nodeBuiltinStubs_literal =
    [''fs'', ''fs/promises'', ''path'', ''os'', ''crypto'', ''events'', ''child_process'',
     ''timers'', ''timers/promises'', ''buffer'', ''util'', ''stream'', ''stream/promises'',
     ''url'', ''querystring'', ''http'', ''https'', ''assert'', ''net'', ''tls'', ''dns'',
     ''dgram'', ''cluster'', ''tty'', ''v8'', ''vm'', ''worker_threads'', ''zlib'', ''module'',
     ''readline'', ''perf_hooks'', ''string_decoder'', ''process'']"
  by (simp add: nodeBuiltinStubs_literal_def)

lemma nodeBuiltinStubs_keys:
  "map fst nodeBuiltinStubs =
     map fst nodeBuiltinStubs_literal @ map ((@) ''node:'') (map fst nodeBuiltinStubs_literal)"
  by (simp add: nodeBuiltinStubs_def case_prod_beta comp_def)

lemma http2_is_external: "''http2'' \<in> set nodeBuiltins"
  by (simp add: nodeBuiltins_def)

lemma http2_has_no_stub: "''http2'' \<notin> set (map fst nodeBuiltinStubs)"
  unfolding nodeBuiltinStubs_keys nodeBuiltinStubs_literal_keys by simp

lemma externals_without_stub:
  "filter (\<lambda>n. n \<notin> set (map fst nodeBuiltinStubs)) nodeBuiltins = [''http2'']"
  unfolding nodeBuiltinStubs_keys nodeBuiltinStubs_literal_keys nodeBuiltins_def by simp

lemma fakeRequire_fixed:
  "fakeRequire ''react'' = (ReactModule, [])"
  "fakeRequire ''react/jsx-runtime'' = (JsxRuntimeModule, [])"
  "fakeRequire ''@raycast/api'' = (RaycastApiNamespace, [])"
  "fakeRequire ''@raycast/utils'' = (RaycastApiNamespace, [])"
  by (simp_all add: fakeRequire_def)


lemma fakeRequire_unknown:
  assumes "name \<notin> {''react'', ''react/jsx-runtime'', ''@raycast/api'', ''@raycast/utils''}"
    and "name \<notin> set (map fst nodeBuiltinStubs)"
    and "name \<notin> set objectPrototypeKeys"
  shows "fakeRequire name = (EmptyObject, [unknown_module_warning name])"
  using assms by (simp add: fakeRequire_def in_operator_def)

lemma fakeRequire_inherited:
  "fakeRequire ''constructor'' = (InheritedMember ''constructor'', [])"
proof -
  have "''constructor'' \<notin> set (map fst nodeBuiltinStubs)"
    unfolding nodeBuiltinStubs_keys nodeBuiltinStubs_literal_keys by simp
  then have "map_of nodeBuiltinStubs ''constructor'' = None"
    by (simp add: map_of_eq_None_iff)
  then show ?thesis
    by (simp add: fakeRequire_def in_operator_def objectPrototypeKeys_def)
qed

text \<open>
  Claim C1. The claim gives every name of the host-builtin list of \<open>buildExtensionCommand\<close>
  (bare or \<open>node:\<close>-prefixed) its stub. The list keeps \<open>http2\<close> external, under the
  comment "We provide runtime stubs via fakeRequire in ExtensionView", and the stub table
  of the renderer has no \<open>http2\<close> entry: \<open>fakeRequire\<close> answers it as an unknown module,
  with an empty object and the warning. (Lemma \<open>externals_without_stub\<close>: it is the only
  such name. Lemma \<open>fakeRequire_inherited\<close>: a name that the table inherits from
  \<open>Object.prototype\<close> passes the \<open>in\<close> test and is answered with the inherited member,
  without a warning. No branch of \<open>fakeRequire\<close> throws.)
\<close>

theorem fakeRequire_http2_unknown:
  "''http2'' \<in> set nodeBuiltins
   \<and> fakeRequire ''http2'' = (EmptyObject, [unknown_module_warning ''http2''])"
proof -
  have "fakeRequire ''http2'' = (EmptyObject, [unknown_module_warning ''http2''])"
    using http2_has_no_stub by (simp add: fakeRequire_def in_operator_def objectPrototypeKeys_def)
  then show ?thesis using http2_is_external by simp
qed

section \<open>No-view execution\<close>

lemma mount_awaits:
  "runner_step initial_runner (Mount (Returns v)) =
     initial_runner\<lparr>cancelledFlags := [False], outstanding := [0]\<rparr>"
  by (simp add: initial_runner_def)

text \<open>
  Claim C7. The runner calls the entry function and awaits it. When the awaited value
  fulfils, the status becomes \<open>done\<close> and one timer of 600 ms is set, whose firing calls
  \<open>onClose\<close>. When it rejects, or when the call throws, the status becomes \<open>error\<close> with
  \<open>e?.message || 'Command failed'\<close> as the message (\<open>boom\<close> for an \<open>Error('boom')\<close>); no
  timer is set, so a timer tick changes nothing, and the Close button calls \<open>onClose\<close>.
  When the cleanup of the effect has run while the call is outstanding, the later
  fulfilment or rejection changes neither status nor message, sets no timer and closes
  nothing.
\<close>

theorem no_view_execution:
  "runner_run [Mount (Returns v), Fulfils 0 x] initial_runner =
      initial_runner\<lparr>status := StatusDone, cancelledFlags := [False], timers := [600]\<rparr>
   \<and> runner_run [Mount (Returns v), Fulfils 0 x, TimerFires] initial_runner =
      initial_runner\<lparr>status := StatusDone, cancelledFlags := [False], runnerCloseCalls := 1\<rparr>
   \<and> runner_run [Mount (Returns v), Rejects 0 e] initial_runner =
      initial_runner\<lparr>status := StatusError, cancelledFlags := [False],
        errorMsg := js_or (get_prop_opt e ''message'') (JStr ''Command failed'')\<rparr>
   \<and> runner_run [Mount (Throws e)] initial_runner =
      initial_runner\<lparr>status := StatusError, cancelledFlags := [False],
        errorMsg := js_or (get_prop_opt e ''message'') (JStr ''Command failed'')\<rparr>
   \<and> js_or (get_prop_opt (JObj [(''message'', JStr ''boom'')]) ''message'') (JStr ''Command failed'')
        = JStr ''boom''
   \<and> runner_run [Mount (Returns v), Rejects 0 e, TimerFires] initial_runner =
      runner_run [Mount (Returns v), Rejects 0 e] initial_runner
   \<and> runnerCloseCalls (runner_run [Mount (Returns v), Rejects 0 e, ClickClose] initial_runner) = 1
   \<and> runner_run [Mount (Returns v), Cleanup, Fulfils 0 x] initial_runner =
      initial_runner\<lparr>cancelledFlags := [True]\<rparr>
   \<and> runner_run [Mount (Returns v), Cleanup, Rejects 0 e] initial_runner =
      initial_runner\<lparr>cancelledFlags := [True]\<rparr>
   \<and> runner_run [Mount (Returns v), Cleanup, Fulfils 0 x, TimerFires] initial_runner =
      initial_runner\<lparr>cancelledFlags := [True]\<rparr>"
  by (simp add: runner_run_def initial_runner_def on_success_def on_catch_def is_cancelled_def
        js_or_def get_prop_opt_def)

section \<open>The disk: lookups after writes\<close>

lemma map_of_update_entry:
  "map_of (update_entry x n es) y = (if y = x then Some n else map_of es y)"
  by (induction es) auto

lemma lookup_append:
  "lookup t (p @ q) = (case lookup t p of None \<Rightarrow> None | Some n \<Rightarrow> lookup n q)"
proof (induction t p rule: lookup.induct)
  case (1 n)
  show ?case by simp
next
  case (2 m c x xs)
  show ?case by simp
next
  case (3 m es x xs)
  then show ?case by (cases "map_of es x") simp_all
qed

lemma lookup_prefix_exists: "lookup t (p @ q) = Some n \<Longrightarrow> lookup t p \<noteq> None"
  by (simp add: lookup_append split: option.splits)

lemma put_sibling:
  "put t (base @ [a]) n = Some t' \<Longrightarrow> a \<noteq> b \<Longrightarrow>
   lookup t' (base @ b # rest) = lookup t (base @ b # rest)"
proof (induction base arbitrary: t t')
  case Nil
  then show ?case
    by (cases t) (auto simp add: map_of_update_entry)
next
  case (Cons x base)
  show ?case
  proof (cases t)
    case (File m c)
    with Cons.prems show ?thesis by simp
  next
    case (Dir m es)
    from Cons.prems(1) Dir obtain c c' where
      c: "map_of es x = Some c" and c': "put c (base @ [a]) n = Some c'"
      and t': "t' = Dir m (update_entry x c' es)"
      by (cases base) (auto split: option.splits)
    have "lookup c' (base @ b # rest) = lookup c (base @ b # rest)"
      using Cons.IH [OF c' Cons.prems(2)] .
    then show ?thesis
      using Dir c t' by (simp add: map_of_update_entry)
  qed
qed

lemma put_existing:
  "lookup t p = Some old \<Longrightarrow> \<exists>t'. put t p n = Some t' \<and> lookup t' p = Some n"
proof (induction t p arbitrary: old rule: lookup.induct)
  case (1 t)
  show ?case by simp
next
  case (2 m c x xs)
  then show ?case by simp
next
  case (3 m es x xs)
  from "3.prems" obtain c where c: "map_of es x = Some c" and l: "lookup c xs = Some old"
    by (auto split: option.splits)
  show ?case
  proof (cases xs)
    case Nil
    then show ?thesis by (simp add: map_of_update_entry)
  next
    case (Cons y ys)
    from "3.IH" [OF c l] obtain c' where "put c xs n = Some c'" and "lookup c' xs = Some n"
      by blast
    then show ?thesis using c Cons by (simp add: map_of_update_entry)
  qed
qed

section \<open>The build cache\<close>

lemma ensureDepsInstalled_disk:
  "disk (ensureDepsInstalled E extPath w) = disk w
   \<or> (\<exists>modules. put (disk w) (extPath @ [''node_modules'']) modules
          = Some (disk (ensureDepsInstalled E extPath w)))"
  by (auto simp add: ensureDepsInstalled_def Let_def split: sum.splits option.splits bool.splits)

lemma ensureDepsInstalled_counters:
  "bundlerCalls (ensureDepsInstalled E extPath w) = bundlerCalls w"
  "clock (ensureDepsInstalled E extPath w) = clock w"
  by (auto simp add: ensureDepsInstalled_def Let_def split: sum.splits option.splits bool.splits)

lemma ensureDepsInstalled_lookup:
  assumes "b \<noteq> ''node_modules''"
  shows "lookup (disk (ensureDepsInstalled E extPath w)) (extPath @ b # rest)
       = lookup (disk w) (extPath @ b # rest)"
  using ensureDepsInstalled_disk [of E extPath w] put_sibling [of "disk w" extPath "''node_modules''"] assms
  by auto

lemma entry_candidates_shape:
  "p \<in> set (entry_candidates extPath cmdName) \<Longrightarrow> \<exists>x. p = extPath @ [''src'', x]"
  by (auto simp add: entry_candidates_def)

lemma find_agree: "(\<And>x. x \<in> set xs \<Longrightarrow> P x = Q x) \<Longrightarrow> find P xs = find Q xs"
  by (induction xs) auto

lemma find_member: "find P xs = Some x \<Longrightarrow> x \<in> set xs"
  by (induction xs) (auto split: if_splits)

lemma resolveEntryFile_after_deps:
  "resolveEntryFile (disk (ensureDepsInstalled E extPath w)) extPath cmdName
     = resolveEntryFile (disk w) extPath cmdName"
  unfolding resolveEntryFile_def
proof (rule find_agree)
  fix p assume "p \<in> set (entry_candidates extPath cmdName)"
  then obtain x where "p = extPath @ [''src'', x]"
    using entry_candidates_shape by blast
  then show "existsSync (disk (ensureDepsInstalled E extPath w)) p = existsSync (disk w) p"
    by (simp add: existsSync_def ensureDepsInstalled_lookup)
qed

lemma cached_bundle_file:
  assumes "lookup t entryFile = Some src" and "lookup t outFile = Some (File outMtime cached)"
  shows "cached_bundle t entryFile outFile = (if outMtime > mtime src then Some cached else None)"
  using assms by (simp add: cached_bundle_def existsSync_def statSync_def readFileSync_def)

lemma run_bundler_over_file:
  assumes "lookup (disk w) outFile = Some (File outMtime cached)"
  shows "bundlerCalls (snd (run_bundler E extName cmdName entryFile outFile w)) = Suc (bundlerCalls w)
    \<and> (case esbuild E (disk w) entryFile of
          None \<Rightarrow>
            fst (run_bundler E extName cmdName entryFile outFile w) = None
            \<and> disk (snd (run_bundler E extName cmdName entryFile outFile w)) = disk w
        | Some text \<Rightarrow>
            fst (run_bundler E extName cmdName entryFile outFile w) = Some text
            \<and> lookup (disk (snd (run_bundler E extName cmdName entryFile outFile w))) outFile
                = Some (File (clock w) text))"
proof (cases "esbuild E (disk w) entryFile")
  case None
  then show ?thesis by (simp add: run_bundler_def Let_def)
next
  case (Some js)
  from put_existing [OF assms, of "File (clock w) js"] obtain t where
    t: "put (disk w) outFile (File (clock w) js) = Some t"
    and l: "lookup t outFile = Some (File (clock w) js)"
    by blast
  have wf: "writeFile (disk w) outFile (clock w) js = Some t"
    using assms t by (simp add: writeFile_def)
  show ?thesis
    using Some wf l by (simp add: run_bundler_def Let_def existsSync_def readFileSync_def)
qed

text \<open>
  Claim C2. Let the extension be installed, let its entry file be resolved, and let the
  cache path hold a file (a cached bundle). If the modification time of the cache file is
  strictly later than that of the entry file, the build returns the cached text as it is,
  without a call of the bundler and with the cache file untouched. If the entry file's
  modification time is equal or later, the bundler is called once; when it succeeds the
  build returns the new text and the cache file holds it, stamped with the time of the
  write; when it fails the build returns \<open>null\<close>.
\<close>

theorem cache_used_iff_strictly_newer:
  assumes out: "lookup (disk w) (extensionsDir E @ [extName, ''.sc-build'', cmdName @ ''.js''])
                  = Some (File outMtime cached)"
    and entry: "resolveEntryFile (disk w) (extensionsDir E @ [extName]) cmdName = Some entryFile"
    and src: "lookup (disk w) entryFile = Some src"
  shows "(outMtime > mtime src \<longrightarrow>
            fst (buildExtensionCommand E extName cmdName w) = Inr (Some cached)
            \<and> bundlerCalls (snd (buildExtensionCommand E extName cmdName w)) = bundlerCalls w
            \<and> lookup (disk (snd (buildExtensionCommand E extName cmdName w)))
                 (extensionsDir E @ [extName, ''.sc-build'', cmdName @ ''.js''])
               = Some (File outMtime cached))
     \<and> (outMtime \<le> mtime src \<longrightarrow>
            bundlerCalls (snd (buildExtensionCommand E extName cmdName w)) = Suc (bundlerCalls w)
            \<and> (case esbuild E (disk (ensureDepsInstalled E (extensionsDir E @ [extName]) w)) entryFile of
                  None \<Rightarrow> fst (buildExtensionCommand E extName cmdName w) = Inr None
                | Some text \<Rightarrow>
                    fst (buildExtensionCommand E extName cmdName w) = Inr (Some text)
                    \<and> lookup (disk (snd (buildExtensionCommand E extName cmdName w)))
                         (extensionsDir E @ [extName, ''.sc-build'', cmdName @ ''.js''])
                       = Some (File (clock w) text)))"
proof -
  define extPath where "extPath = extensionsDir E @ [extName]"
  define outFile where "outFile = extensionsDir E @ [extName, ''.sc-build'', cmdName @ ''.js'']"
  define w1 where "w1 = ensureDepsInstalled E extPath w"
  have outFile_eq: "outFile = extPath @ ''.sc-build'' # [cmdName @ ''.js'']"
    by (simp add: outFile_def extPath_def)
  have ex: "existsSync (disk w) extPath"
  proof -
    have "lookup (disk w) (extPath @ [''.sc-build'', cmdName @ ''.js'']) = Some (File outMtime cached)"
      using out by (simp add: extPath_def)
    then show ?thesis
      unfolding existsSync_def by (rule lookup_prefix_exists)
  qed
  have entry1: "resolveEntryFile (disk w1) extPath cmdName = Some entryFile"
    using entry by (simp add: w1_def extPath_def resolveEntryFile_after_deps)
  have out1: "lookup (disk w1) outFile = Some (File outMtime cached)"
    using ensureDepsInstalled_lookup [of "''.sc-build''" E extPath w "[cmdName @ ''.js'']"] out
    by (simp add: w1_def outFile_def extPath_def)
  have "entryFile \<in> set (entry_candidates extPath cmdName)"
    using entry unfolding resolveEntryFile_def extPath_def by (rule find_member)
  then obtain x where x: "entryFile = extPath @ ''src'' # [x]"
    using entry_candidates_shape by fastforce
  have src1: "lookup (disk w1) entryFile = Some src"
    using ensureDepsInstalled_lookup [of "''src''" E extPath w "[x]"] src
    by (simp add: w1_def x)
  have bd: "existsSync (disk w1) (extensionsDir E @ [extName, ''.sc-build''])"
  proof -
    have "lookup (disk w1) ((extensionsDir E @ [extName, ''.sc-build'']) @ [cmdName @ ''.js''])
            = Some (File outMtime cached)"
      using out1 by (simp add: outFile_def)
    then show ?thesis
      unfolding existsSync_def by (rule lookup_prefix_exists)
  qed
  have gb: "getBuildDir E extName w1 = Some (extensionsDir E @ [extName, ''.sc-build''], w1)"
    using bd by (simp add: getBuildDir_def Let_def)
  have cb: "cached_bundle (disk w1) entryFile outFile = (if outMtime > mtime src then Some cached else None)"
    using src1 out1 by (rule cached_bundle_file)
  have build: "buildExtensionCommand E extName cmdName w =
      (case cached_bundle (disk w1) entryFile outFile of
         Some text \<Rightarrow> (Inr (Some text), w1)
       | None \<Rightarrow> (case run_bundler E extName cmdName entryFile outFile w1 of (r, w3) \<Rightarrow> (Inr r, w3)))"
    using ex entry1 gb
    by (simp add: buildExtensionCommand_def Let_def extPath_def [symmetric] w1_def [symmetric] outFile_def
          split: option.splits)
  have hit: "outMtime > mtime src \<Longrightarrow> buildExtensionCommand E extName cmdName w = (Inr (Some cached), w1)"
    by (simp add: build cb)
  have miss: "outMtime \<le> mtime src \<Longrightarrow>
      buildExtensionCommand E extName cmdName w =
        (Inr (fst (run_bundler E extName cmdName entryFile outFile w1)),
         snd (run_bundler E extName cmdName entryFile outFile w1))"
    by (simp add: build cb split: prod.splits)
  have counters: "bundlerCalls w1 = bundlerCalls w" "clock w1 = clock w"
    by (simp_all add: w1_def ensureDepsInstalled_counters)
  note rb = run_bundler_over_file [OF out1, of E extName cmdName entryFile]
  show ?thesis
  proof (intro conjI impI)
    assume "outMtime > mtime src"
    from hit [OF this] show "fst (buildExtensionCommand E extName cmdName w) = Inr (Some cached)"
      and "bundlerCalls (snd (buildExtensionCommand E extName cmdName w)) = bundlerCalls w"
      and "lookup (disk (snd (buildExtensionCommand E extName cmdName w)))
                 (extensionsDir E @ [extName, ''.sc-build'', cmdName @ ''.js''])
               = Some (File outMtime cached)"
      using out1 counters by (simp_all add: outFile_def)
  next
    assume le: "outMtime \<le> mtime src"
    show "bundlerCalls (snd (buildExtensionCommand E extName cmdName w)) = Suc (bundlerCalls w)"
      using miss [OF le] rb counters by simp
    show "case esbuild E (disk (ensureDepsInstalled E (extensionsDir E @ [extName]) w)) entryFile of
            None \<Rightarrow> fst (buildExtensionCommand E extName cmdName w) = Inr None
          | Some text \<Rightarrow>
              fst (buildExtensionCommand E extName cmdName w) = Inr (Some text)
              \<and> lookup (disk (snd (buildExtensionCommand E extName cmdName w)))
                   (extensionsDir E @ [extName, ''.sc-build'', cmdName @ ''.js''])
                 = Some (File (clock w) text)"
      using miss [OF le] rb counters
      by (auto simp add: w1_def extPath_def outFile_def split: option.splits)
  qed
qed

lemma demo_entry:
  "resolveEntryFile (disk (demo_world c)) (extensionsDir demo_env @ [''todo'']) ''list''
     = Some [''userData'', ''extensions'', ''todo'', ''src'', ''list.tsx'']"
  by (simp add: resolveEntryFile_def entry_candidates_def existsSync_def demo_world_def demo_disk_def demo_env_def)

theorem cache_used_iff_strictly_newer_witness:
  "fst (buildExtensionCommand demo_env ''todo'' ''list'' (demo_world 101)) = Inr (Some ''module.exports = cached'')
   \<and> bundlerCalls (snd (buildExtensionCommand demo_env ''todo'' ''list'' (demo_world 101))) = 0
   \<and> fst (buildExtensionCommand demo_env ''todo'' ''list'' (demo_world 100)) = Inr (Some ''module.exports = fresh'')
   \<and> bundlerCalls (snd (buildExtensionCommand demo_env ''todo'' ''list'' (demo_world 100))) = 1
   \<and> lookup (disk (snd (buildExtensionCommand demo_env ''todo'' ''list'' (demo_world 100))))
        [''userData'', ''extensions'', ''todo'', ''.sc-build'', ''list.js'']
      = Some (File 500 ''module.exports = fresh'')"
proof -
  have out: "lookup (disk (demo_world c)) (extensionsDir demo_env @ [''todo'', ''.sc-build'', ''list'' @ ''.js''])
      = Some (File c ''module.exports = cached'')" for c
    by (simp add: demo_world_def demo_disk_def demo_env_def)
  have src: "lookup (disk (demo_world c)) [''userData'', ''extensions'', ''todo'', ''src'', ''list.tsx'']
      = Some (File 100 ''export default List'')" for c
    by (simp add: demo_world_def demo_disk_def)
  have e: "esbuild demo_env t p = Some ''module.exports = fresh''" for t p
    by (simp add: demo_env_def)
  have x: "extensionsDir demo_env @ [''todo'', ''.sc-build'', ''list.js'']
      = [''userData'', ''extensions'', ''todo'', ''.sc-build'', ''list.js'']"
    by (simp add: demo_env_def)
  have c: "clock (demo_world c) = 500" "bundlerCalls (demo_world c) = 0" for c
    by (simp_all add: demo_world_def)
  show ?thesis
    using cache_used_iff_strictly_newer [OF out [of 101] demo_entry [of 101] src [of 101]]
      cache_used_iff_strictly_newer [OF out [of 100] demo_entry [of 100] src [of 100]]
    by (simp add: e x c)
qed

section \<open>The stub surface: what a stub call does\<close>


















section \<open>Mode inference for a view command\<close>

lemma is_thenable_promise: "is_thenable (JPromise p)"
  by (simp add: is_thenable_def get_prop_opt_def)

lemma is_thenable_object: "is_thenable (JObj ((''then'', JFun b ps) # rest))"
  by (simp add: is_thenable_def get_prop_opt_def)

lemma not_thenable_element: "\<not> is_thenable (JElement n)"
  by (simp add: is_thenable_def get_prop_opt_def)

lemma not_thenable_null: "\<not> is_thenable JNull"
  by (simp add: is_thenable_def)

lemma fresh_view_is_safe_view:
  "ExtensionView ''view'' (Some Component) initial_session = SafeView (fst (SafeViewRenderer Component))"
  by (simp add: ExtensionView_def initial_session_def isNoView_def currentView_def)

lemma probe_uses_call_0:
  "Component 0 = Component' 0 \<Longrightarrow> SafeViewRenderer Component = SafeViewRenderer Component'"
  by (simp add: SafeViewRenderer_def)

lemma probe_null:
  assumes "probe_element (Component 0) = JNull"
  shows "ExtensionView ''view'' (Some Component) initial_session = SafeView RenderNothing"
    and "ExtensionView_effects ''view'' (Some Component) initial_session =
           Inr (initial_session\<lparr>detectedNoView := True\<rparr>)"
    and "entry_calls ''view'' (Some Component) initial_session = 1"
  using assms
  by (simp_all add: ExtensionView_effects_def entry_calls_def fresh_view_is_safe_view
        SafeViewRenderer_def)

lemma probe_element_shown:
  assumes "probe_element (Component 0) = r" and "isValidElement r"
  shows "ExtensionView ''view'' (Some Component) initial_session = SafeView (RenderElement r)"
    and "ExtensionView_effects ''view'' (Some Component) initial_session = Inr initial_session"
    and "entry_calls ''view'' (Some Component) initial_session = 1"
proof -
  from assms(2) have "r \<noteq> JNull" by (cases r) simp_all
  with assms show
    "ExtensionView ''view'' (Some Component) initial_session = SafeView (RenderElement r)"
    "ExtensionView_effects ''view'' (Some Component) initial_session = Inr initial_session"
    "entry_calls ''view'' (Some Component) initial_session = 1"
    by (simp_all add: ExtensionView_effects_def entry_calls_def fresh_view_is_safe_view
          SafeViewRenderer_def)
qed

lemma probe_component:
  assumes "probe_element (Component 0) = r" and "r \<noteq> JNull" and "\<not> isValidElement r"
  shows "ExtensionView ''view'' (Some Component) initial_session = SafeView RenderComponent"
    and "ExtensionView_effects ''view'' (Some Component) initial_session =
           (case Component 1 of
              Returns rendered \<Rightarrow> Inr initial_session
            | Throws e \<Rightarrow>
                (case get_prop e ''message'' of
                   None \<Rightarrow> Inl (TypeError ''Cannot read properties of undefined or null'')
                 | Some msg \<Rightarrow> Inr (initial_session\<lparr>error := msg, boundaryError := e\<rparr>)))"
    and "entry_calls ''view'' (Some Component) initial_session = 2"
  using assms
  by (simp_all add: ExtensionView_effects_def entry_calls_def fresh_view_is_safe_view
        SafeViewRenderer_def)

lemma no_view_after_detection:
  "ExtensionView ''view'' (Some Component) (initial_session\<lparr>detectedNoView := True\<rparr>) = NoViewRunnerPanel"
  by (simp add: ExtensionView_def initial_session_def isNoView_def)

lemma view_mode_kept:
  "\<not> isNoView ''view'' initial_session"
  "\<not> isNoView ''view'' (initial_session\<lparr>error := msg, boundaryError := e\<rparr>)"
  "isNoView ''view'' (initial_session\<lparr>detectedNoView := True\<rparr>)"
  by (simp_all add: isNoView_def initial_session_def)

text \<open>
  Claim C3. For a command declared with mode \<open>view\<close>, in a fresh session and with a loaded
  entry function \<open>Component\<close>, the controller renders \<open>SafeViewRenderer\<close>, whose probe is one
  call of the entry function, call number 0: what is rendered depends on no other call.

  \<^item> If the probe returns a thenable (any truthy value whose \<open>then\<close> is a function), the
    effect sets \<open>detectedNoView\<close>; the command is a no-view command from then on and the
    runner is rendered. The entry function was called once.
  \<^item> If the probe returns \<open>null\<close>, the same happens: \<open>null\<close> is the value by which the memo
    reports a thenable, so a view command that renders nothing is reclassified as no-view.
    This is where the code departs from the claim, and from its own comments
    (\<open>if it returns a Promise, it's no-view\<close>, \<open>Detected async/no-view\<close>).
  \<^item> If the probe returns a React element, nothing is reclassified, that element is
    rendered and the entry function was called once.
  \<^item> If the probe returns any other value, or throws, nothing is reclassified and the
    entry is rendered as a component, \<open><Component />\<close>: React calls the entry function a
    second time. The throw of the probe itself is recorded nowhere. If the second call
    returns, the session is unchanged; if it throws \<open>e\<close>, the error boundary keeps \<open>e\<close>
    and the session's \<open>error\<close> becomes \<open>e.message\<close>; the command is in view mode in both
    cases.
\<close>

theorem view_probe_classifies:
  "(Component 0 = Component' 0 \<longrightarrow> SafeViewRenderer Component = SafeViewRenderer Component')
   \<and> (Component 0 = Returns r \<longrightarrow> is_thenable r \<longrightarrow>
        ExtensionView_effects ''view'' (Some Component) initial_session =
          Inr (initial_session\<lparr>detectedNoView := True\<rparr>)
        \<and> entry_calls ''view'' (Some Component) initial_session = 1)
   \<and> (Component 0 = Returns JNull \<longrightarrow>
        ExtensionView ''view'' (Some Component) initial_session = SafeView RenderNothing
        \<and> ExtensionView_effects ''view'' (Some Component) initial_session =
            Inr (initial_session\<lparr>detectedNoView := True\<rparr>)
        \<and> entry_calls ''view'' (Some Component) initial_session = 1)
   \<and> isNoView ''view'' (initial_session\<lparr>detectedNoView := True\<rparr>)
   \<and> ExtensionView ''view'' (Some Component) (initial_session\<lparr>detectedNoView := True\<rparr>) =
        NoViewRunnerPanel
   \<and> (Component 0 = Returns r \<longrightarrow> isValidElement r \<longrightarrow>
        ExtensionView ''view'' (Some Component) initial_session = SafeView (RenderElement r)
        \<and> ExtensionView_effects ''view'' (Some Component) initial_session = Inr initial_session
        \<and> entry_calls ''view'' (Some Component) initial_session = 1)
   \<and> ((Component 0 = Returns r \<and> \<not> is_thenable r \<and> r \<noteq> JNull \<and> \<not> isValidElement r)
         \<or> Component 0 = Throws e \<longrightarrow>
        ExtensionView ''view'' (Some Component) initial_session = SafeView RenderComponent
        \<and> entry_calls ''view'' (Some Component) initial_session = 2
        \<and> ExtensionView_effects ''view'' (Some Component) initial_session =
            (case Component 1 of
               Returns rendered \<Rightarrow> Inr initial_session
             | Throws e' \<Rightarrow>
                 (case get_prop e' ''message'' of
                    None \<Rightarrow> Inl (TypeError ''Cannot read properties of undefined or null'')
                  | Some msg \<Rightarrow> Inr (initial_session\<lparr>error := msg, boundaryError := e'\<rparr>))))
   \<and> \<not> isNoView ''view'' initial_session
   \<and> \<not> isNoView ''view'' (initial_session\<lparr>error := msg, boundaryError := e'\<rparr>)"
proof -
  have a: "Component 0 = Component' 0 \<longrightarrow> SafeViewRenderer Component = SafeViewRenderer Component'"
    by (simp add: SafeViewRenderer_def)
  have b: "Component 0 = Returns r \<longrightarrow> is_thenable r \<longrightarrow>
        ExtensionView_effects ''view'' (Some Component) initial_session =
          Inr (initial_session\<lparr>detectedNoView := True\<rparr>)
        \<and> entry_calls ''view'' (Some Component) initial_session = 1"
    by (simp add: probe_null probe_element_def)
  have c: "Component 0 = Returns JNull \<longrightarrow>
        ExtensionView ''view'' (Some Component) initial_session = SafeView RenderNothing
        \<and> ExtensionView_effects ''view'' (Some Component) initial_session =
            Inr (initial_session\<lparr>detectedNoView := True\<rparr>)
        \<and> entry_calls ''view'' (Some Component) initial_session = 1"
    by (simp add: probe_null probe_element_def)
  have d: "Component 0 = Returns r \<longrightarrow> isValidElement r \<longrightarrow>
        ExtensionView ''view'' (Some Component) initial_session = SafeView (RenderElement r)
        \<and> ExtensionView_effects ''view'' (Some Component) initial_session = Inr initial_session
        \<and> entry_calls ''view'' (Some Component) initial_session = 1"
  proof (intro impI)
    assume c0: "Component 0 = Returns r" and v: "isValidElement r"
    from v have "\<not> is_thenable r" by (cases r) (simp_all add: not_thenable_element)
    with c0 have "probe_element (Component 0) = r" by (simp add: probe_element_def)
    from probe_element_shown [of Component r, OF this v] show
      "ExtensionView ''view'' (Some Component) initial_session = SafeView (RenderElement r)
        \<and> ExtensionView_effects ''view'' (Some Component) initial_session = Inr initial_session
        \<and> entry_calls ''view'' (Some Component) initial_session = 1"
      by simp
  qed
  have f: "(Component 0 = Returns r \<and> \<not> is_thenable r \<and> r \<noteq> JNull \<and> \<not> isValidElement r)
         \<or> Component 0 = Throws e \<longrightarrow>
        ExtensionView ''view'' (Some Component) initial_session = SafeView RenderComponent
        \<and> entry_calls ''view'' (Some Component) initial_session = 2
        \<and> ExtensionView_effects ''view'' (Some Component) initial_session =
            (case Component 1 of
               Returns rendered \<Rightarrow> Inr initial_session
             | Throws e' \<Rightarrow>
                 (case get_prop e' ''message'' of
                    None \<Rightarrow> Inl (TypeError ''Cannot read properties of undefined or null'')
                  | Some msg \<Rightarrow> Inr (initial_session\<lparr>error := msg, boundaryError := e'\<rparr>)))"
  proof (intro impI)
    assume h: "(Component 0 = Returns r \<and> \<not> is_thenable r \<and> r \<noteq> JNull \<and> \<not> isValidElement r)
         \<or> Component 0 = Throws e"
    then obtain q where q: "probe_element (Component 0) = q" "q \<noteq> JNull" "\<not> isValidElement q"
      by (auto simp add: probe_element_def)
    from probe_component [of Component q, OF q] show
      "ExtensionView ''view'' (Some Component) initial_session = SafeView RenderComponent
        \<and> entry_calls ''view'' (Some Component) initial_session = 2
        \<and> ExtensionView_effects ''view'' (Some Component) initial_session =
            (case Component 1 of
               Returns rendered \<Rightarrow> Inr initial_session
             | Throws e' \<Rightarrow>
                 (case get_prop e' ''message'' of
                    None \<Rightarrow> Inl (TypeError ''Cannot read properties of undefined or null'')
                  | Some msg \<Rightarrow> Inr (initial_session\<lparr>error := msg, boundaryError := e'\<rparr>)))"
      by simp
  qed
  note g = no_view_after_detection [of Component]
  note h = view_mode_kept
  show ?thesis
    apply (intro conjI)
            apply (rule a)
           apply (rule b)
          apply (rule c)
         apply (rule h(3))
        apply (rule g)
       apply (rule d)
      apply (rule f)
     apply (rule h(1))
    apply (rule h(2))
    done
qed


theorem view_probe_classifies_witness:
  "ExtensionView ''view'' (Some (\<lambda>n. Returns JNull)) initial_session = SafeView RenderNothing
   \<and> ExtensionView_effects ''view'' (Some (\<lambda>n. Returns JNull)) initial_session =
       Inr (initial_session\<lparr>detectedNoView := True\<rparr>)
   \<and> ExtensionView ''view'' (Some (\<lambda>n. Returns JNull)) (initial_session\<lparr>detectedNoView := True\<rparr>) =
       NoViewRunnerPanel
   \<and> ExtensionView_effects ''view'' (Some (\<lambda>n. Returns (JPromise Pending))) initial_session =
       Inr (initial_session\<lparr>detectedNoView := True\<rparr>)
   \<and> ExtensionView ''view'' (Some (\<lambda>n. Returns (JElement ''List''))) initial_session =
       SafeView (RenderElement (JElement ''List''))
   \<and> ExtensionView_effects ''view''
       (Some (\<lambda>n. Throws (JObj [(''message'', JStr ''Invalid hook call'')]))) initial_session =
       Inr (initial_session\<lparr>error := JStr ''Invalid hook call'',
              boundaryError := JObj [(''message'', JStr ''Invalid hook call'')]\<rparr>)
   \<and> ExtensionView_effects ''view''
       (Some (\<lambda>n. if n = 0 then Throws (JStr ''no dispatcher'') else Returns (JElement ''List'')))
       initial_session = Inr initial_session"
  using view_probe_classifies [where Component = "\<lambda>n. Returns JNull"]
    view_probe_classifies [where Component = "\<lambda>n. Returns (JPromise Pending)" and r = "JPromise Pending"]
    view_probe_classifies [where Component = "\<lambda>n. Returns (JElement ''List'')" and r = "JElement ''List''"]
    view_probe_classifies [where Component = "\<lambda>n. Throws (JObj [(''message'', JStr ''Invalid hook call'')])"
        and e = "JObj [(''message'', JStr ''Invalid hook call'')]"]
    view_probe_classifies [where Component = "\<lambda>n. if n = 0 then Throws (JStr ''no dispatcher'') else Returns (JElement ''List'')"
        and e = "JStr ''no dispatcher''"]
  by (simp add: is_thenable_promise)

section \<open>Discovery: one extension at a time\<close>






lemma discover_root_is_file:
  "lookup t (extensionsDir E) = Some (File m c) \<Longrightarrow>
   discoverInstalledExtensionCommands E t = Inl ENOTDIR"
  by (simp add: discoverInstalledExtensionCommands_def existsSync_def readdirSync_def)





lemma push_commands_abort:
  assumes "command_info E dir pkg icon bad = Abort"
  shows "push_commands E dir pkg icon (cmds @ bad # rest) results = push_commands E dir pkg icon cmds results"
  using assms
proof (induction cmds arbitrary: results)
  case Nil
  then show ?case by simp
next
  case (Cons cmd cmds)
  then show ?case by (cases "command_info E dir pkg icon cmd") simp_all
qed






lemma those_None: "None \<in> set xs \<Longrightarrow> those xs = None"
  by (induction xs) (auto split: option.splits)

lemma command_info_title_not_a_string:
  assumes "get_prop cmd ''name'' = Some name" and "truthy name"
    and "truthy (get_prop_opt cmd ''title'')"
    and "toLowerCase E (get_prop_opt cmd ''title'') = None"
  shows "command_info E dir pkg icon cmd = Abort"
proof -
  let ?ks = "filter truthy
     [JStr dir, js_or (get_prop_opt pkg ''title'') (JStr []), name,
      js_or (get_prop_opt cmd ''title'') (JStr []), js_or (get_prop_opt cmd ''description'') (JStr [])]"
  have "get_prop_opt cmd ''title'' \<in> set ?ks"
    using assms(3) by (simp add: js_or_def)
  then have "toLowerCase E (get_prop_opt cmd ''title'') \<in> set (map (toLowerCase E) ?ks)"
    by (simp only: set_map) (rule imageI)
  then have "None \<in> set (map (toLowerCase E) ?ks)"
    using assms(4) by simp
  then have "those (map (toLowerCase E) ?ks) = None"
    by (rule those_None)
  then show ?thesis
    using assms(1,2) by (simp add: command_info_def Let_def)
qed












end
